theory Spec2Isabelle
  imports Complex_Main "HOL-Library.Multiset" "HOL-Library.Log_Nat"
begin

text \<open>
  A shallow embedding of the two classes of the Lighthouse skill that read a parsed
  Lighthouse report: \<open>LighthouseAnalyzer\<close> (summary, failed audits, opportunities,
  diagnostics, Core Web Vitals) and \<open>FixGenerator\<close> as \<open>src/lib/fix-generator.js\<close> defines
  it (the four analysis passes, the rule functions, the framework check and
  \<open>formatOutput\<close>). Reading and parsing the file is outside: both classes are modelled from
  the loaded report on. Each class is a record of its fields, each method a function from
  the object to its result and the object after the call.
\<close>

section \<open>JavaScript values and primitives used by the analyzer and the fix generator\<close>

text \<open>
  A numeric field of the parsed report is absent (\<open>undefined\<close>), \<open>null\<close> or a number.
  A number of the report is the exact rational value of the finite double that
  \<open>JSON.parse\<close> made of it. Comparing two doubles, the sign of their difference,
  \<open>Math.round\<close> and a division by 1024 give what the exact values give; adding doubles
  does not, and the two sums of byte counts are modelled with the rounding of the addition
  (see \<open>double_add\<close> below). \<open>NaN\<close> never comes out of \<open>JSON.parse\<close> but is what
  \<open>Math.round(undefined)\<close> gives.
\<close>

datatype jsnum = Undefined | Null | NaN | Num rat

datatype error = TypeError

text \<open>\<open>ToNumber\<close>: \<open>null\<close> becomes 0, \<open>undefined\<close> becomes \<open>NaN\<close> (here \<open>None\<close>).\<close>

fun toNumber :: "jsnum \<Rightarrow> rat option" where
  "toNumber Undefined = None"
| "toNumber Null = Some 0"
| "toNumber NaN = None"
| "toNumber (Num x) = Some x"

text \<open>\<open>v < c\<close> and \<open>v >= c\<close> against a numeric literal: false when either side is \<open>NaN\<close>.\<close>

definition js_lt :: "jsnum \<Rightarrow> rat \<Rightarrow> bool" where
  "js_lt v c = (case toNumber v of None \<Rightarrow> False | Some x \<Rightarrow> x < c)"

definition js_ge :: "jsnum \<Rightarrow> rat \<Rightarrow> bool" where
  "js_ge v c = (case toNumber v of None \<Rightarrow> False | Some x \<Rightarrow> x \<ge> c)"

text \<open>\<open>v || d\<close> for a numeric field: \<open>undefined\<close>, \<open>null\<close>, \<open>NaN\<close> and 0 are falsy.\<close>

fun num_or :: "jsnum \<Rightarrow> rat \<Rightarrow> rat" where
  "num_or (Num x) d = (if x = 0 then d else x)"
| "num_or _ d = d"

text \<open>\<open>s || d\<close> for a string field: \<open>undefined\<close> and the empty string are falsy.\<close>

fun or_str :: "string option \<Rightarrow> string \<Rightarrow> string" where
  "or_str (Some s) d = (if s = [] then d else s)"
| "or_str None d = d"

fun truthy_str :: "string option \<Rightarrow> bool" where
  "truthy_str (Some s) = (s \<noteq> [])"
| "truthy_str None = False"

text \<open>String concatenation with a possibly absent string prints \<open>undefined\<close>.\<close>

fun str_of :: "string option \<Rightarrow> string" where
  "str_of (Some s) = s"
| "str_of None = ''undefined''"

text \<open>
  \<open>Math.round\<close> is the integer closest to \<open>x\<close>, a tie going up: the floor of the exact
  \<open>x + 1/2\<close>. The language says that this is not \<open>Math.floor(x + 0.5)\<close>, whose sum is
  rounded: \<open>Math.round(0.49999999999999994)\<close> is 0.
\<close>

definition Math_round :: "rat \<Rightarrow> rat" where
  "Math_round x = of_int \<lfloor>x + 1 / 2\<rfloor>"

fun Math_round_js :: "jsnum \<Rightarrow> jsnum" where
  "Math_round_js v = (case toNumber v of None \<Rightarrow> NaN | Some x \<Rightarrow> Num (Math_round x))"

subsection \<open>Sums of doubles\<close>

text \<open>
  The value of a computed Number: a finite double by its exact value, an infinity or
  \<open>NaN\<close>.
\<close>

datatype double = Finite rat | PosInfinity | NegInfinity | NotANumber

text \<open>The exponent of a positive rational: \<open>2 ^ e \<le> q < 2 ^ (e + 1)\<close>.\<close>

definition floor_log2 :: "rat \<Rightarrow> int" where
  "floor_log2 q = (if 1 \<le> q then bitlen \<lfloor>q\<rfloor> - 1 else - bitlen (\<lceil>1 / q\<rceil> - 1))"

text \<open>The nearest integer, a tie going to the even one.\<close>

definition round_even :: "rat \<Rightarrow> int" where
  "round_even x =
     (let f = \<lfloor>x\<rfloor>; d = x - of_int f
      in if d < 1 / 2 then f else if 1 / 2 < d then f + 1 else if even f then f else f + 1)"

text \<open>
  IEEE 754 binary64, round to nearest, ties to even: an exact result is rounded to a
  multiple of the unit in the last of its 53 significant bits (of \<open>2 ^ -1074\<close> below the
  normal range), and it is an infinity when the rounded magnitude reaches \<open>2 ^ 1024\<close>.
\<close>

definition to_double :: "rat \<Rightarrow> double" where
  "to_double q =
     (if q = 0 then Finite 0
      else
        (let e = max (floor_log2 \<bar>q\<bar>) (- 1022);
             ulp = 2 powi (e - 52);
             r = of_int (round_even (q / ulp)) * ulp
         in if 2 powi 1024 \<le> \<bar>r\<bar> then (if 0 < q then PosInfinity else NegInfinity)
            else Finite r))"

text \<open>\<open>x + y\<close> on Numbers.\<close>

fun double_add :: "double \<Rightarrow> double \<Rightarrow> double" where
  "double_add (Finite x) (Finite y) = to_double (x + y)"
| "double_add NotANumber y = NotANumber"
| "double_add x NotANumber = NotANumber"
| "double_add PosInfinity NegInfinity = NotANumber"
| "double_add NegInfinity PosInfinity = NotANumber"
| "double_add PosInfinity y = PosInfinity"
| "double_add x PosInfinity = PosInfinity"
| "double_add NegInfinity y = NegInfinity"
| "double_add x NegInfinity = NegInfinity"

text \<open>\<open>x / 1024\<close> and \<open>Math.round(x)\<close> on a computed Number.\<close>

definition div_1024 :: "double \<Rightarrow> double" where
  "div_1024 x = (case x of Finite q \<Rightarrow> to_double (q / 1024) | _ \<Rightarrow> x)"

definition Math_round_double :: "double \<Rightarrow> double" where
  "Math_round_double x = (case x of Finite q \<Rightarrow> Finite (Math_round q) | _ \<Rightarrow> x)"

text \<open>
  \<open>Number::toString\<close> is a primitive of the language, not code of the repository: the
  functions that print a number take it as the parameter \<open>ts\<close>.
\<close>

fun num_str :: "(rat \<Rightarrow> string) \<Rightarrow> jsnum \<Rightarrow> string" where
  "num_str ts (Num x) = ts x"
| "num_str ts NaN = ''NaN''"
| "num_str ts Null = ''null''"
| "num_str ts Undefined = ''undefined''"

fun double_str :: "(rat \<Rightarrow> string) \<Rightarrow> double \<Rightarrow> string" where
  "double_str ts (Finite x) = ts x"
| "double_str ts PosInfinity = ''Infinity''"
| "double_str ts NegInfinity = ''-Infinity''"
| "double_str ts NotANumber = ''NaN''"

text \<open>
  For the concrete runs below, \<open>Number::toString\<close> on the integers (below \<open>1e21\<close>,
  where the language prints plain decimal digits).
\<close>

function digits :: "int \<Rightarrow> string" where
  "digits n =
     (if n < 10 then [char_of (48 + nat n)]
      else digits (n div 10) @ [char_of (48 + nat (n mod 10))])"
  by pat_completeness auto
termination
  by (relation "measure nat") auto

declare digits.simps [simp del]

definition int_str :: "rat \<Rightarrow> string" where
  "int_str x = (if x < 0 then ''-'' else []) @ digits \<lfloor>\<bar>x\<bar>\<rfloor>"

text \<open>\<open>String.prototype.includes\<close>: the receiver contains the argument as a substring.\<close>

fun startsWith :: "string \<Rightarrow> string \<Rightarrow> bool" where
  "startsWith s [] = True"
| "startsWith [] (c # cs) = False"
| "startsWith (x # xs) (c # cs) = (x = c \<and> startsWith xs cs)"

fun js_includes :: "string \<Rightarrow> string \<Rightarrow> bool" where
  "js_includes [] sub = startsWith [] sub"
| "js_includes (x # xs) sub = (startsWith (x # xs) sub \<or> js_includes xs sub)"

text \<open>\<open>s.split(c)\<close> on a one-character separator, and \<open>.pop()\<close> of its result.\<close>

fun split_acc :: "char \<Rightarrow> string \<Rightarrow> string \<Rightarrow> string list" where
  "split_acc c acc [] = [rev acc]"
| "split_acc c acc (x # xs) =
     (if x = c then rev acc # split_acc c [] xs else split_acc c (x # acc) xs)"

definition js_split :: "string \<Rightarrow> char \<Rightarrow> string list" where
  "js_split s c = split_acc c [] s"

definition js_pop :: "string list \<Rightarrow> string" where
  "js_pop xs = last xs"

text \<open>\<open>Array.prototype.join\<close>.\<close>

fun join :: "string list \<Rightarrow> string \<Rightarrow> string" where
  "join [] sep = []"
| "join [x] sep = x"
| "join (x # y # ys) sep = x @ sep @ join (y # ys) sep"

text \<open>
  \<open>Array.prototype.sort(comparefn)\<close>: the language guarantees a stable sort for a
  consistent comparator; the model is the stable insertion sort. An element goes
  before the first element it does not compare greater than.
\<close>

fun insert_by :: "('a \<Rightarrow> 'a \<Rightarrow> rat) \<Rightarrow> 'a \<Rightarrow> 'a list \<Rightarrow> 'a list" where
  "insert_by cmp x [] = [x]"
| "insert_by cmp x (y # ys) =
     (if cmp x y \<le> 0 then x # y # ys else y # insert_by cmp x ys)"

definition js_sort :: "('a \<Rightarrow> 'a \<Rightarrow> rat) \<Rightarrow> 'a list \<Rightarrow> 'a list" where
  "js_sort cmp xs = foldr (insert_by cmp) xs []"

text \<open>\<open>obj[key]\<close> on an object held as its entries in iteration order.\<close>

definition lookup :: "(string \<times> 'a) list \<Rightarrow> string \<Rightarrow> 'a option" where
  "lookup obj k = map_of obj k"

definition Object_values :: "(string \<times> 'a) list \<Rightarrow> 'a list" where
  "Object_values obj = map snd obj"

text \<open>\<open>obj[key] = v\<close>: an existing key keeps its place, a new key goes last.\<close>

fun assign :: "(string \<times> 'a) list \<Rightarrow> string \<Rightarrow> 'a \<Rightarrow> (string \<times> 'a) list" where
  "assign [] k v = [(k, v)]"
| "assign ((k', v') # rest) k v =
     (if k' = k then (k, v) # rest else (k', v') # assign rest k v)"

section \<open>The Lighthouse report\<close>

text \<open>
  Rows of \<open>details.items\<close> are heterogeneous; the record holds the fields the code reads.
  \<open>item.node?.nodeLabel\<close> and \<open>item.sourceLocation?.url\<close> are flattened: \<open>None\<close> when
  either the object or its field is absent.
\<close>

record subitem =
  subpart :: "string option"
  duration :: jsnum

record item =
  url :: "string option"
  wastedBytes :: jsnum
  totalBytes :: jsnum
  node_nodeLabel :: "string option"
  source :: "string option"
  item_description :: "string option"
  sourceLocation_url :: "string option"
  item_type :: "string option"
  item_items :: "subitem list option"
  nodeLabel :: "string option"
  selector :: "string option"

record details =
  details_type :: "string option"
  overallSavingsMs :: jsnum
  overallSavingsBytes :: jsnum
  items :: "item list option"

record audit =
  audit_id :: "string option"
  audit_title :: "string option"
  audit_description :: "string option"
  score :: jsnum
  scoreDisplayMode :: "string option"
  numericValue :: jsnum
  numericUnit :: "string option"
  displayValue :: "string option"
  rating :: "string option"
  details :: "details option"

text \<open>\<open>auditRefs\<close> holds the \<open>id\<close> of each reference, in report order.\<close>

record category =
  cat_title :: "string option"
  cat_score :: jsnum
  auditRefs :: "string list option"

record report =
  requestedUrl :: "string option"
  finalUrl :: "string option"
  fetchTime :: "string option"
  lighthouseVersion :: "string option"
  categories :: "(string \<times> category) list"
  audits :: "(string \<times> audit) list"

section \<open>LighthouseAnalyzer\<close>

record analyzer_options =
  opt_category :: "string option"
  minScore :: rat
  verbose :: bool

text \<open>What both classes hold after \<open>loadReport\<close>: the path and the parsed report.\<close>

record loaded =
  reportPath :: string
  lhr :: report

record analyzer = loaded +
  options :: analyzer_options

text \<open>The constructor's defaults: \<open>options.minScore || 0.5\<close> and the like.\<close>

definition analyzer_new :: "string \<Rightarrow> string option \<Rightarrow> jsnum \<Rightarrow> bool \<Rightarrow> report \<Rightarrow> analyzer" where
  "analyzer_new path cat ms vb r =
     \<lparr>reportPath = path, lhr = r,
      options = \<lparr>opt_category = (if truthy_str cat then cat else None),
                 minScore = num_or ms 0.5, verbose = vb\<rparr>\<rparr>"

record category_score =
  cs_title :: "string option"
  cs_score :: jsnum

record summary =
  sum_url :: "string option"
  sum_finalUrl :: "string option"
  sum_timestamp :: "string option"
  sum_version :: "string option"
  sum_scores :: "(string \<times> category_score) list"

definition score_percent :: "jsnum \<Rightarrow> jsnum" where
  "score_percent s =
     (if s \<noteq> Null
      then (case toNumber s of None \<Rightarrow> NaN | Some x \<Rightarrow> Num (Math_round (x * 100)))
      else Null)"

definition getCategoryScores :: "analyzer \<Rightarrow> (string \<times> category_score) list \<times> analyzer" where
  "getCategoryScores this =
     (foldl (\<lambda>scores (cid, c).
               assign scores cid \<lparr>cs_title = cat_title c, cs_score = score_percent (cat_score c)\<rparr>)
        [] (categories (lhr this)), this)"

definition getSummary :: "analyzer \<Rightarrow> summary \<times> analyzer" where
  "getSummary this =
     (case getCategoryScores this of (scores, this') \<Rightarrow>
        (\<lparr>sum_url = requestedUrl (lhr this'), sum_finalUrl = finalUrl (lhr this'),
          sum_timestamp = fetchTime (lhr this'), sum_version = lighthouseVersion (lhr this'),
          sum_scores = scores\<rparr>, this'))"

text \<open>
  \<open>getFailedAudits\<close>. Spreading or filtering an absent \<open>auditRefs\<close> and reading
  \<open>.score\<close> of an absent audit raise a \<open>TypeError\<close>.
\<close>

fun push_all :: "category list \<Rightarrow> string list \<Rightarrow> error + string list" where
  "push_all [] acc = Inr acc"
| "push_all (c # cs) acc =
     (case auditRefs c of None \<Rightarrow> Inl TypeError | Some refs \<Rightarrow> push_all cs (acc @ refs))"

definition collect_refs :: "report \<Rightarrow> string option \<Rightarrow> error + string list" where
  "collect_refs r categoryId =
     (if truthy_str categoryId
      then (case lookup (categories r) (the categoryId) of
              None \<Rightarrow> Inr []
            | Some c \<Rightarrow> (case auditRefs c of None \<Rightarrow> Inl TypeError | Some refs \<Rightarrow> Inr refs))
      else push_all (Object_values (categories r)) [])"

fun dedupe :: "string set \<Rightarrow> string list \<Rightarrow> string list" where
  "dedupe seenIds [] = []"
| "dedupe seenIds (r # rs) =
     (if r \<in> seenIds then dedupe seenIds rs else r # dedupe (insert r seenIds) rs)"

definition is_failed :: "rat \<Rightarrow> audit \<Rightarrow> bool" where
  "is_failed ms a =
     (score a \<noteq> Null \<and> js_lt (score a) ms \<and>
      scoreDisplayMode a \<noteq> Some ''manual'' \<and> scoreDisplayMode a \<noteq> Some ''notApplicable'')"

fun filter_failed :: "rat \<Rightarrow> audit option list \<Rightarrow> error + audit list" where
  "filter_failed ms [] = Inr []"
| "filter_failed ms (None # rest) = Inl TypeError"
| "filter_failed ms (Some a # rest) =
     (case filter_failed ms rest of
        Inl e \<Rightarrow> Inl e
      | Inr out \<Rightarrow> Inr (if is_failed ms a then a # out else out))"

definition getFailedAudits :: "string option \<Rightarrow> analyzer \<Rightarrow> (error + audit list) \<times> analyzer" where
  "getFailedAudits categoryId this =
     (case collect_refs (lhr this) categoryId of
        Inl e \<Rightarrow> (Inl e, this)
      | Inr refs \<Rightarrow>
          (filter_failed (minScore (options this))
             (map (lookup (audits (lhr this))) (dedupe {} refs)), this))"

record opportunity =
  opp_id :: "string option"
  opp_title :: "string option"
  opp_description :: "string option"
  opp_score :: jsnum
  wastedMs :: rat
  opp_wastedBytes :: rat
  opp_items :: nat

definition is_opportunity :: "audit \<Rightarrow> bool" where
  "is_opportunity a =
     (case details a of
        None \<Rightarrow> False
      | Some d \<Rightarrow> details_type d = Some ''opportunity'' \<and> js_lt (score a) 1)"

definition to_opportunity :: "audit \<Rightarrow> opportunity" where
  "to_opportunity a =
     (let d = the (details a) in
      \<lparr>opp_id = audit_id a, opp_title = audit_title a, opp_description = audit_description a,
       opp_score = score a,
       wastedMs = num_or (overallSavingsMs d) 0,
       opp_wastedBytes = num_or (overallSavingsBytes d) 0,
       opp_items = length (case items d of None \<Rightarrow> [] | Some its \<Rightarrow> its)\<rparr>)"

fun scan_opportunities :: "audit list \<Rightarrow> opportunity list \<Rightarrow> opportunity list" where
  "scan_opportunities [] opportunities = opportunities"
| "scan_opportunities (a # rest) opportunities =
     scan_opportunities rest
       (if is_opportunity a then opportunities @ [to_opportunity a] else opportunities)"

definition getOpportunities :: "analyzer \<Rightarrow> opportunity list \<times> analyzer" where
  "getOpportunities this =
     (js_sort (\<lambda>a b. wastedMs b - wastedMs a)
        (scan_opportunities (Object_values (audits (lhr this))) []), this)"

record diagnostic =
  diag_id :: "string option"
  diag_title :: "string option"
  diag_description :: "string option"
  diag_score :: jsnum
  diag_displayValue :: "string option"

definition diagnosticIds :: "string list" where
  "diagnosticIds =
     [''bootup-time'', ''mainthread-work-breakdown'', ''long-tasks'', ''dom-size'',
      ''network-requests'', ''total-byte-weight'']"

definition to_diagnostic :: "audit \<Rightarrow> diagnostic" where
  "to_diagnostic a =
     \<lparr>diag_id = audit_id a, diag_title = audit_title a, diag_description = audit_description a,
      diag_score = score a, diag_displayValue = displayValue a\<rparr>"

fun scan_diagnostics :: "report \<Rightarrow> string list \<Rightarrow> diagnostic list \<Rightarrow> diagnostic list" where
  "scan_diagnostics r [] diagnostics = diagnostics"
| "scan_diagnostics r (i # ids) diagnostics =
     scan_diagnostics r ids
       (case lookup (audits r) i of
          None \<Rightarrow> diagnostics
        | Some a \<Rightarrow> if js_lt (score a) 1 then diagnostics @ [to_diagnostic a] else diagnostics)"

definition getDiagnostics :: "analyzer \<Rightarrow> diagnostic list \<times> analyzer" where
  "getDiagnostics this = (scan_diagnostics (lhr this) diagnosticIds [], this)"

record vital =
  vital_name :: "string option"
  vital_value :: jsnum
  vital_unit :: "string option"
  vital_displayValue :: "string option"
  vital_rating :: "string option"
  passed :: bool

definition vitals :: "report \<Rightarrow> (string \<times> audit option) list" where
  "vitals r =
     [(''lcp'', lookup (audits r) ''largest-contentful-paint''),
      (''fid'', lookup (audits r) ''max-potential-fid''),
      (''cls'', lookup (audits r) ''cumulative-layout-shift''),
      (''fcp'', lookup (audits r) ''first-contentful-paint''),
      (''tbt'', lookup (audits r) ''total-blocking-time''),
      (''si'', lookup (audits r) ''speed-index'')]"

definition to_vital :: "audit \<Rightarrow> vital" where
  "to_vital a =
     \<lparr>vital_name = audit_title a, vital_value = numericValue a, vital_unit = numericUnit a,
      vital_displayValue = displayValue a, vital_rating = rating a,
      passed = (rating a = Some ''pass'')\<rparr>"

definition getCoreWebVitals :: "analyzer \<Rightarrow> (string \<times> vital) list \<times> analyzer" where
  "getCoreWebVitals this =
     (foldl (\<lambda>results (k, a). case a of None \<Rightarrow> results | Some x \<Rightarrow> assign results k (to_vital x))
        [] (vitals (lhr this)), this)"

section \<open>FixGenerator\<close>

datatype priority = High | Medium | Low

record snippet =
  snip_type :: string
  snip_title :: string
  code :: string

text \<open>
  A fix record; \<open>fix_fixes\<close> is its \<open>fixes\<close> field (the snippets), \<open>diagnosis\<close> is
  \<open>None\<close> for the rules that set none. Every rule writes one of the three priority
  literals.
\<close>

record fixrec =
  fix_title :: string
  priority :: priority
  impact :: string
  fix_description :: "string option"
  diagnosis :: "string option"
  fix_fixes :: "snippet list"

record generator = loaded +
  gen_category :: "string option"
  gen_fixes :: "fixrec list"

definition generator_new :: "string \<Rightarrow> string option \<Rightarrow> report \<Rightarrow> generator" where
  "generator_new path cat r =
     \<lparr>reportPath = path, lhr = r,
      gen_category = (if truthy_str cat then cat else None), gen_fixes = []\<rparr>"

definition addFix :: "fixrec \<Rightarrow> generator \<Rightarrow> generator" where
  "addFix f this = this\<lparr>gen_fixes := gen_fixes this @ [f]\<rparr>"

text \<open>\<open>audit.details?.items || []\<close> and \<open>audit.details?.overallSavingsMs\<close>.\<close>

definition items_of :: "audit \<Rightarrow> item list" where
  "items_of a =
     (case details a of
        None \<Rightarrow> []
      | Some d \<Rightarrow> (case items d of None \<Rightarrow> [] | Some its \<Rightarrow> its))"

definition savingsMs_of :: "audit \<Rightarrow> jsnum" where
  "savingsMs_of a = (case details a of None \<Rightarrow> Undefined | Some d \<Rightarrow> overallSavingsMs d)"

text \<open>\<open>items[0]?.node?.nodeLabel\<close>.\<close>

definition first_nodeLabel :: "item list \<Rightarrow> string option" where
  "first_nodeLabel its = (case its of [] \<Rightarrow> None | i # rest \<Rightarrow> node_nodeLabel i)"

text \<open>The length of an array, as the number it is.\<close>

definition len :: "'a list \<Rightarrow> rat" where
  "len xs = of_nat (length xs)"

definition diagnoseTTFB :: "rat \<Rightarrow> string" where
  "diagnoseTTFB ttfbMs =
     (if ttfbMs > 1000 then ''TTFB is critically high (> 1s)''
      else if ttfbMs > 600 then ''TTFB is elevated (> 600ms)''
      else if ttfbMs > 400 then ''TTFB is moderate (> 400ms)''
      else ''TTFB is acceptable'')"

definition diagnoseFID :: "rat \<Rightarrow> string" where
  "diagnoseFID fidMs =
     (if fidMs > 200 then ''FID is critically high (> 200ms)''
      else if fidMs > 100 then ''FID needs improvement (> 100ms)''
      else if fidMs > 50 then ''FID is acceptable but could be better''
      else ''FID is good'')"

definition getServerResponseTimeFixes :: "rat \<Rightarrow> snippet list" where
  \<open>getServerResponseTimeFixes ttfbMs =
     (if ttfbMs > 600
      then [\<lparr>snip_type = ''text'', snip_title = ''TTFB Root Cause Analysis'',
             code = ''1. Check server location & CDN\<newline>'' @
                    ''2. Enable CDN caching\<newline>'' @
                    ''3. Optimize database queries\<newline>'' @
                    ''4. Use edge computing''\<rparr>]
      else []) @
     [\<lparr>snip_type = ''bash'', snip_title = ''Add Cache Headers'',
       code = ''# Apache .htaccess\<newline>'' @
              ''<IfModule mod_expires.c>\<newline>'' @
              ''  ExpiresActive On\<newline>'' @
              ''  ExpiresByType text/html "access plus 1 hour"\<newline>'' @
              ''</IfModule>''\<rparr>]\<close>

definition addServerResponseTimeFixes :: "(rat \<Rightarrow> string) \<Rightarrow> audit \<Rightarrow> generator \<Rightarrow> generator" where
  "addServerResponseTimeFixes ts a this =
     (let ttfbMs = num_or (numericValue a) 0 in
      addFix
        \<lparr>fix_title = ''Reduce Server Response Time (TTFB: '' @ ts (Math_round ttfbMs) @ ''ms)'',
         priority = High,
         impact = ''All Core Web Vitals - TTFB affects LCP, FCP, and SI'',
         fix_description = audit_description a,
         diagnosis = Some (diagnoseTTFB ttfbMs),
         fix_fixes = getServerResponseTimeFixes ttfbMs\<rparr> this)"

text \<open>\<open>item.url?.includes('chrome-extension://')\<close>, \<open>undefined\<close> (falsy) without a URL.\<close>

definition is_extension :: "item \<Rightarrow> bool" where
  "is_extension i =
     (case url i of None \<Rightarrow> False | Some u \<Rightarrow> js_includes u ''chrome-extension://'')"

definition wasted_of :: "item \<Rightarrow> rat" where
  "wasted_of i = num_or (wastedBytes i) 0"

text \<open>The \<open>forEach\<close> of \<open>getUnusedJsAnalysis\<close>, with its index.\<close>

fun top_wasters_lines :: "(rat \<Rightarrow> string) \<Rightarrow> nat \<Rightarrow> item list \<Rightarrow> string \<Rightarrow> string" where
  "top_wasters_lines ts i [] output = output"
| "top_wasters_lines ts i (it # rest) output =
     (let u = or_str (url it) ''unknown'';
          filename = js_pop (js_split u (CHR ''/''));
          wastedKb = Math_round (num_or (wastedBytes it) 0 / 1024);
          totalKb = Math_round (num_or (totalBytes it) 0 / 1024)
      in top_wasters_lines ts (i + 1) rest
           (output @ ts (of_nat (i + 1)) @ ''. **'' @ filename @ ''**\<newline>'' @
            ''   - Wasted: '' @ ts wastedKb @ ''KB / '' @ ts totalKb @ ''KB\<newline>\<newline>''))"

definition getUnusedJsAnalysis :: "(rat \<Rightarrow> string) \<Rightarrow> item list \<Rightarrow> double \<Rightarrow> rat \<Rightarrow> string" where
  "getUnusedJsAnalysis ts its total_bytes totalMs =
     (let topWasters =
            take 5 (js_sort (\<lambda>a b. wasted_of b - wasted_of a)
                      (filter (\<lambda>i. \<not> is_extension i) its))
      in top_wasters_lines ts 0 topWasters
           (''## Unused JavaScript Details\<newline>\<newline>'' @
            ''**Total Impact**: '' @ double_str ts (Math_round_double (div_1024 total_bytes)) @
              ''KB wasted, '' @
              ts totalMs @ ''ms savings\<newline>\<newline>'' @
            ''### Top Wasting Files:\<newline>\<newline>''))"

text \<open>
  \<open>e.url?.split('/').pop()\<close>; an element without a URL is \<open>undefined\<close>, which
  \<open>join\<close> prints as the empty string.
\<close>

definition extension_name :: "item \<Rightarrow> string" where
  "extension_name e = (case url e of None \<Rightarrow> [] | Some u \<Rightarrow> js_pop (js_split u (CHR ''/'')))"

definition addUnusedJavaScriptFixes :: "(rat \<Rightarrow> string) \<Rightarrow> audit \<Rightarrow> generator \<Rightarrow> generator" where
  "addUnusedJavaScriptFixes ts a this =
     (let its = items_of a;
          totalWastedMs = num_or (savingsMs_of a) 0;
          totalWastedBytes =
            foldl (\<lambda>sum i. double_add sum (Finite (num_or (wastedBytes i) 0))) (Finite 0) its;
          firstParty = filter (\<lambda>i. \<not> is_extension i) its;
          extensions = filter (\<lambda>i. is_extension i) its;
          fixes1 =
            (if length firstParty > 0
             then [\<lparr>snip_type = ''markdown'', snip_title = ''Unused JavaScript Analysis'',
                    code = getUnusedJsAnalysis ts firstParty totalWastedBytes totalWastedMs\<rparr>,
                   \<lparr>snip_type = ''javascript'', snip_title = ''Dynamic Imports for Code Splitting'',
                    code = ''// pages/index.js or app/page.js\<newline>'' @
                           ''import dynamic from 'next/dynamic';\<newline>'' @
                           ''\<newline>'' @
                           ''// Lazy load heavy components\<newline>'' @
                           ''const HeavyChart = dynamic(() => import('../components/HeavyChart'), {\<newline>'' @
                           ''  loading: () => <div>Loading chart...</div>,\<newline>'' @
                           ''  ssr: false\<newline>'' @
                           ''});''\<rparr>]
             else []);
          fixes2 =
            (if length extensions > 0
             then fixes1 @
                  [\<lparr>snip_type = ''text'', snip_title = ''Browser Extensions Detected (Can Ignore)'',
                    code = ''Browser extensions like '' @ join (map extension_name extensions) '', '' @
                      '' only affect local development. Test in incognito mode for accurate production metrics.''\<rparr>]
             else fixes1)
      in addFix
           \<lparr>fix_title = ''Reduce Unused JavaScript (~'' @
              double_str ts (Math_round_double (div_1024 totalWastedBytes)) @
              ''KB wasted, '' @ ts totalWastedMs @ ''ms savings)'',
            priority = High,
            impact = ''FCP, LCP, and TBT'',
            fix_description = audit_description a,
            diagnosis = Some (ts (len firstParty) @ '' first-party files with unused code''),
            fix_fixes = fixes2\<rparr> this)"

definition addColorContrastFixes :: "(rat \<Rightarrow> string) \<Rightarrow> audit \<Rightarrow> generator \<Rightarrow> generator" where
  \<open>addColorContrastFixes ts a this =
     (let its = items_of a;
          fixes1 =
            [\<lparr>snip_type = ''css'', snip_title = ''Fix contrast with darker text'',
              code = ''/* Current issue: text-white/40 = 40% opacity = insufficient contrast '' @
                     ''*/\<newline>'' @
                     ''\<newline>'' @
                     ''/* GOOD - Fix Option 1: Increase opacity */\<newline>'' @
                     ''.text-white'' @
                     [CHR 0x5C] @
                     ''/60 {\<newline>'' @
                     ''  color: rgba(255, 255, 255, 0.6); /* 7:1 ratio - PASS */\<newline>'' @
                     ''}\<newline>'' @
                     ''\<newline>'' @
                     ''/* GOOD - Fix Option 2: Use lighter gray */\<newline>'' @
                     ''.text-gray-300 {\<newline>'' @
                     ''  color: rgb(209, 213, 219); /* 12.6:1 ratio - PASS */\<newline>'' @
                     ''}''\<rparr>]
      in addFix
           \<lparr>fix_title = ''Fix Color Contrast ('' @ ts (len its) @ '' elements affected)'',
            priority = High,
            impact = ''Accessibility (WCAG AA compliance)'',
            fix_description = audit_description a,
            diagnosis = Some (''Elements like "'' @ str_of (first_nodeLabel its) @
              ''" have insufficient contrast (3.65:1, need 4.5:1)''),
            fix_fixes = fixes1\<rparr> this)\<close>

definition addHeadingOrderFixes :: "audit \<Rightarrow> generator \<Rightarrow> generator" where
  "addHeadingOrderFixes a this =
     (let its = items_of a in
      addFix
        \<lparr>fix_title = ''Fix Heading Order Hierarchy'',
         priority = Medium,
         impact = ''Accessibility and SEO'',
         fix_description = audit_description a,
         diagnosis = Some (''Found heading with invalid order: '' @ str_of (first_nodeLabel its)),
         fix_fixes =
           [\<lparr>snip_type = ''html'', snip_title = ''Add missing h2 heading'',
             code = ''<!-- PROBLEM -->\<newline><h1>Main Title</h1>\<newline><h3>'' @
               or_str (first_nodeLabel its) ''Subheading'' @
               ''</h3>\<newline>\<newline><!-- SOLUTION -->\<newline><h1>Main Title</h1>\<newline>'' @
               ''<h2>Section Title</h2>\<newline><h3>'' @
               or_str (first_nodeLabel its) ''Subheading'' @ ''</h3>''\<rparr>]\<rparr> this)"

record console_error =
  err_source :: "string option"
  err_description :: "string option"
  err_url :: "string option"

definition error_line :: "console_error \<Rightarrow> string" where
  "error_line e =
     ''- '' @ str_of (err_description e) @
     (if truthy_str (err_url e) then ''\<newline>  URL: '' @ take 80 (the (err_url e)) else [])"

definition addConsoleErrorsFixes :: "(rat \<Rightarrow> string) \<Rightarrow> audit \<Rightarrow> generator \<Rightarrow> generator" where
  "addConsoleErrorsFixes ts a this =
     (let its = items_of a;
          errors = map (\<lambda>i. \<lparr>err_source = source i, err_description = item_description i,
                               err_url = sourceLocation_url i\<rparr>) its
      in addFix
           \<lparr>fix_title = ''Fix Console Errors ('' @ ts (len its) @ '' errors)'',
            priority = Medium,
            impact = ''User experience'',
            fix_description = audit_description a,
            diagnosis = Some (or_str (case errors of [] \<Rightarrow> None | e # rest \<Rightarrow> err_description e)
                                ''Console errors detected''),
            fix_fixes =
              [\<lparr>snip_type = ''text'', snip_title = ''Error Analysis'',
                code = join (map error_line errors) ''\<newline>''\<rparr>]\<rparr> this)"

definition addSourceMapsFixes :: "(rat \<Rightarrow> string) \<Rightarrow> audit \<Rightarrow> generator \<Rightarrow> generator" where
  "addSourceMapsFixes ts a this =
     (let its = items_of a in
      addFix
        \<lparr>fix_title = ''Fix Missing Source Maps ('' @ ts (len its) @ '' files)'',
         priority = Low,
         impact = ''Debugging (not production)'',
         fix_description = audit_description a,
         diagnosis = Some (ts (len its) @ '' JavaScript files missing source maps''),
         fix_fixes =
           [\<lparr>snip_type = ''bash'', snip_title = ''Enable source maps in Next.js'',
             code = ''# next.config.js\<newline>'' @
                    ''module.exports = {\<newline>'' @
                    ''  productionBrowserSourceMaps: true\<newline>'' @
                    ''};\<newline>'' @
                    ''\<newline>'' @
                    ''npm run build''\<rparr>]\<rparr> this)"

definition lcp_diagnosis :: "(rat \<Rightarrow> string) \<Rightarrow> item option \<Rightarrow> string" where
  "lcp_diagnosis ts timingTable =
     (case timingTable of
        None \<Rightarrow> []
      | Some t \<Rightarrow>
          (case item_items t of
             None \<Rightarrow> []
           | Some rows \<Rightarrow>
               ''LCP breakdown: TTFB '' @
               (case find (\<lambda>i. subpart i = Some ''timeToFirstByte'') rows of
                  None \<Rightarrow> ''N/A''
                | Some ttfb \<Rightarrow> num_str ts (Math_round_js (duration ttfb)) @ ''ms'')))"

definition addLCPBreakdownFixes :: "(rat \<Rightarrow> string) \<Rightarrow> audit \<Rightarrow> generator \<Rightarrow> generator" where
  "addLCPBreakdownFixes ts a this =
     (let its = items_of a;
          timingTable = find (\<lambda>i. item_type i = Some ''table'') its;
          lcpElement = find (\<lambda>i. item_type i = Some ''node'') its;
          fixes1 =
            (case lcpElement of
               None \<Rightarrow> []
             | Some e \<Rightarrow>
                 [\<lparr>snip_type = ''text'', snip_title = ''Optimize LCP Element'',
                   code = ''LCP Element: '' @ or_str (nodeLabel e) ''Unknown'' @
                     ''\<newline>Selector: '' @ or_str (selector e) ''unknown'' @
                     ''\<newline>\<newline>1. Preload the LCP resource\<newline>'' @
                     ''2. Reduce CSS on this element\<newline>'' @
                     ''3. Ensure element is in initial HTML''\<rparr>])
      in addFix
           \<lparr>fix_title = ''Optimize LCP Breakdown'',
            priority = High,
            impact = ''LCP metric'',
            fix_description = audit_description a,
            diagnosis = Some (lcp_diagnosis ts timingTable),
            fix_fixes = fixes1\<rparr> this)"

definition addDocumentLatencyFixes :: "(rat \<Rightarrow> string) \<Rightarrow> audit \<Rightarrow> generator \<Rightarrow> generator" where
  "addDocumentLatencyFixes ts a this =
     (let wasted = num_or (savingsMs_of a) 570 in
      addFix
        \<lparr>fix_title = ''Reduce Document Request Latency (~'' @ ts wasted @ ''ms savings)'',
         priority = High,
         impact = ''All page metrics'',
         fix_description = audit_description a,
         diagnosis = Some ''Initial HTML request is taking too long'',
         fix_fixes =
           [\<lparr>snip_type = ''text'', snip_title = ''Document Latency Solutions'',
             code = ''1. Use CDN (Vercel, Netlify, Cloudflare)\<newline>'' @
                    ''2. Enable gzip/brotli compression\<newline>'' @
                    ''3. Add cache headers\<newline>'' @
                    ''4. Use HTTP/2\<newline>'' @
                    ''5. Preconnect to origins''\<rparr>]\<rparr> this)"

definition addFIDFixes :: "(rat \<Rightarrow> string) \<Rightarrow> audit \<Rightarrow> generator \<Rightarrow> generator" where
  "addFIDFixes ts a this =
     (let v = num_or (numericValue a) 0 in
      addFix
        \<lparr>fix_title = ''Reduce First Input Delay (FID: '' @ ts (Math_round v) @ ''ms)'',
         priority = (if v > 100 then High else Medium),
         impact = ''Interactivity'',
         fix_description = audit_description a,
         diagnosis = Some (diagnoseFID v),
         fix_fixes =
           [\<lparr>snip_type = ''text'', snip_title = ''Break up long JavaScript tasks'',
             code = ''- Use requestIdleCallback or setTimeout for chunking\<newline>'' @
                    ''- Use Web Workers for CPU-intensive tasks\<newline>'' @
                    ''- Defer non-critical JavaScript with dynamic imports''\<rparr>]\<rparr> this)"

definition addSpeedIndexFixes :: "audit \<Rightarrow> generator \<Rightarrow> generator" where
  \<open>addSpeedIndexFixes a this =
     addFix
       \<lparr>fix_title = ''Improve Speed Index'',
        priority = Medium,
        impact = ''Perceived performance'',
        fix_description = audit_description a,
        diagnosis = None,
        fix_fixes =
          [\<lparr>snip_type = ''html'', snip_title = ''Add critical CSS inline'',
            code = ''<head>\<newline>'' @
                   ''  <style>body { margin: 0; font-family: system-ui; }</style>\<newline>'' @
                   ''  <link rel="preload" href="styles.css" as="style" onload="this.onload=null;this.rel='stylesheet'">\<newline>'' @
                   ''</head>''\<rparr>]\<rparr> this\<close>

definition addMetaDescriptionFixes :: "audit \<Rightarrow> generator \<Rightarrow> generator" where
  \<open>addMetaDescriptionFixes a this =
     addFix
       \<lparr>fix_title = ''Add Meta Description'',
        priority = High,
        impact = ''SEO'',
        fix_description = audit_description a,
        diagnosis = None,
        fix_fixes =
          [\<lparr>snip_type = ''html'', snip_title = ''Add meta description in head'',
            code = ''<head>\<newline>'' @
                   ''  <meta name="description" content="A clear, compelling description between '' @
                   ''50-160 characters.">\<newline>'' @
                   ''</head>''\<rparr>]\<rparr> this\<close>

definition addCanonicalFixes :: "audit \<Rightarrow> generator \<Rightarrow> generator" where
  \<open>addCanonicalFixes a this =
     addFix
       \<lparr>fix_title = ''Add Canonical Link'',
        priority = Medium,
        impact = ''SEO'',
        fix_description = audit_description a,
        diagnosis = None,
        fix_fixes =
          [\<lparr>snip_type = ''html'', snip_title = ''Add canonical link element'',
            code = ''<head>\<newline>'' @
                   ''  <link rel="canonical" href="https://example.com/page">\<newline>'' @
                   ''</head>''\<rparr>]\<rparr> this\<close>

definition addBFCacheFixes :: "(rat \<Rightarrow> string) \<Rightarrow> audit \<Rightarrow> generator \<Rightarrow> generator" where
  "addBFCacheFixes ts a this =
     (let its = items_of a in
      addFix
        \<lparr>fix_title = ''Enable Back/Forward Cache'',
         priority = Medium,
         impact = ''Navigation performance'',
         fix_description = audit_description a,
         diagnosis = Some (ts (len its) @ '' issues preventing bfcache''),
         fix_fixes =
           [\<lparr>snip_type = ''text'', snip_title = ''bfcache Solutions'',
             code = ''- Remove Cache-Control: no-store header\<newline>'' @
                    ''- Avoid beforeunload/unload event listeners\<newline>'' @
                    ''- Use pagehide event instead\<newline>'' @
                    ''- Avoid fetch() with cache: no-store''\<rparr>]\<rparr> this)"

definition addNextJsOptimizationFixes :: "(rat \<Rightarrow> string) \<Rightarrow> item list \<Rightarrow> generator \<Rightarrow> generator" where
  "addNextJsOptimizationFixes ts chunks this =
     (let totalWastedBytes =
            foldl (\<lambda>sum c. double_add sum (Finite (num_or (wastedBytes c) 0))) (Finite 0) chunks
      in
      addFix
        \<lparr>fix_title = ''Optimize Next.js Bundle Size (~'' @
           double_str ts (Math_round_double (div_1024 totalWastedBytes)) @ ''KB wasted)'',
         priority = High,
         impact = ''FCP, LCP, and TBT'',
         fix_description = Some ''Reduce unused JavaScript in Next.js chunks'',
         diagnosis = None,
         fix_fixes =
           [\<lparr>snip_type = ''bash'', snip_title = ''Analyze Bundle Size'',
             code = ''npm install @next/bundle-analyzer\<newline>'' @
                    ''ANALYZE=true npm run build''\<rparr>,
            \<lparr>snip_type = ''javascript'', snip_title = ''Optimize next.config.js'',
             code = ''module.exports = {\<newline>'' @
                    ''  swcMinify: true,\<newline>'' @
                    ''  compiler: {\<newline>'' @
                    ''    removeConsole: process.env.NODE_ENV === 'production'\<newline>'' @
                    ''  }\<newline>'' @
                    ''};''\<rparr>]\<rparr> this)"

definition is_nextjs_chunk :: "item \<Rightarrow> bool" where
  "is_nextjs_chunk i = (truthy_str (url i) \<and> js_includes (the (url i)) ''/_next/static/chunks/'')"

definition checkFrameworkSpecificIssues :: "(rat \<Rightarrow> string) \<Rightarrow> generator \<Rightarrow> generator" where
  "checkFrameworkSpecificIssues ts this =
     (case lookup (audits (lhr this)) ''unused-javascript'' of
        None \<Rightarrow> this
      | Some unusedJs \<Rightarrow>
          (if js_lt (score unusedJs) 0.9
           then (case details unusedJs of
                   None \<Rightarrow> this
                 | Some d \<Rightarrow>
                     (case items d of
                        None \<Rightarrow> this
                      | Some its \<Rightarrow>
                          (let nextJsChunks = filter is_nextjs_chunk its in
                           if length nextJsChunks > 0
                           then addNextJsOptimizationFixes ts nextJsChunks this
                           else this)))
           else this))"

text \<open>\<open>this.lhr.categories[c]?.auditRefs || []\<close>.\<close>

definition refs_of :: "report \<Rightarrow> string \<Rightarrow> string list" where
  "refs_of r c =
     (case lookup (categories r) c of
        None \<Rightarrow> []
      | Some cat \<Rightarrow> (case auditRefs cat of None \<Rightarrow> [] | Some refs \<Rightarrow> refs))"

text \<open>
  The loop the four passes share: look the audit up, \<open>continue\<close> when it is absent or
  \<open>audit.score >= 0.9\<close>, else run the pass's \<open>switch\<close> on it.
\<close>

fun for_each_ref :: "(audit \<Rightarrow> generator \<Rightarrow> generator) \<Rightarrow> string list \<Rightarrow> generator \<Rightarrow> generator" where
  "for_each_ref switch [] this = this"
| "for_each_ref switch (r # refs) this =
     for_each_ref switch refs
       (case lookup (audits (lhr this)) r of
          None \<Rightarrow> this
        | Some a \<Rightarrow> if js_ge (score a) 0.9 then this else switch a this)"

definition performance_switch :: "(rat \<Rightarrow> string) \<Rightarrow> audit \<Rightarrow> generator \<Rightarrow> generator" where
  "performance_switch ts a this =
     (if audit_id a = Some ''server-response-time'' then addServerResponseTimeFixes ts a this
      else if audit_id a = Some ''unused-javascript'' then addUnusedJavaScriptFixes ts a this
      else if audit_id a = Some ''speed-index'' then addSpeedIndexFixes a this
      else if audit_id a = Some ''lcp-breakdown-insight'' then addLCPBreakdownFixes ts a this
      else if audit_id a = Some ''document-latency-insight'' then addDocumentLatencyFixes ts a this
      else if audit_id a = Some ''max-potential-fid'' then addFIDFixes ts a this
      else this)"

definition analyzePerformanceIssues :: "(rat \<Rightarrow> string) \<Rightarrow> generator \<Rightarrow> generator" where
  "analyzePerformanceIssues ts this =
     checkFrameworkSpecificIssues ts
       (for_each_ref (performance_switch ts) (refs_of (lhr this) ''performance'') this)"

definition accessibility_switch :: "(rat \<Rightarrow> string) \<Rightarrow> audit \<Rightarrow> generator \<Rightarrow> generator" where
  "accessibility_switch ts a this =
     (if audit_id a = Some ''color-contrast'' then addColorContrastFixes ts a this
      else if audit_id a = Some ''heading-order'' then addHeadingOrderFixes a this
      else this)"

definition analyzeAccessibilityIssues :: "(rat \<Rightarrow> string) \<Rightarrow> generator \<Rightarrow> generator" where
  "analyzeAccessibilityIssues ts this =
     for_each_ref (accessibility_switch ts) (refs_of (lhr this) ''accessibility'') this"

definition seo_switch :: "audit \<Rightarrow> generator \<Rightarrow> generator" where
  "seo_switch a this =
     (if audit_id a = Some ''meta-description'' then addMetaDescriptionFixes a this
      else if audit_id a = Some ''canonical'' then addCanonicalFixes a this
      else this)"

definition analyzeSeoIssues :: "generator \<Rightarrow> generator" where
  "analyzeSeoIssues this = for_each_ref seo_switch (refs_of (lhr this) ''seo'') this"

definition best_practices_switch :: "(rat \<Rightarrow> string) \<Rightarrow> audit \<Rightarrow> generator \<Rightarrow> generator" where
  "best_practices_switch ts a this =
     (if audit_id a = Some ''errors-in-console'' then addConsoleErrorsFixes ts a this
      else if audit_id a = Some ''valid-source-maps'' then addSourceMapsFixes ts a this
      else if audit_id a = Some ''bf-cache'' then addBFCacheFixes ts a this
      else this)"

definition analyzeBestPracticesIssues :: "(rat \<Rightarrow> string) \<Rightarrow> generator \<Rightarrow> generator" where
  "analyzeBestPracticesIssues ts this =
     for_each_ref (best_practices_switch ts) (refs_of (lhr this) ''best-practices'') this"

subsection \<open>formatOutput\<close>

definition priorityOrder :: "priority \<Rightarrow> rat" where
  "priorityOrder p = (case p of High \<Rightarrow> 0 | Medium \<Rightarrow> 1 | Low \<Rightarrow> 2)"

definition priority_name :: "priority \<Rightarrow> string" where
  "priority_name p = (case p of High \<Rightarrow> ''high'' | Medium \<Rightarrow> ''medium'' | Low \<Rightarrow> ''low'')"

text \<open>The marker strings, byte for byte as the source file holds them (UTF-8).\<close>

definition emoji :: "priority \<Rightarrow> string" where
  "emoji p =
     (if priority_name p = ''high'' then [CHR 0xEF, CHR 0xA3, CHR 0xBF, CHR 0xC3, CHR 0xBC, CHR 0xC3, CHR 0xAE, CHR 0xC2, CHR 0xA5]
      else if priority_name p = ''medium'' then [CHR 0xEF, CHR 0xA3, CHR 0xBF, CHR 0xC3, CHR 0xBC, CHR 0xC3, CHR 0xBC, CHR 0xC2, CHR 0xB0]
      else [CHR 0xEF, CHR 0xA3, CHR 0xBF, CHR 0xC3, CHR 0xBC, CHR 0xC3, CHR 0xBC, CHR 0xC2, CHR 0xA2])"

definition diagnosis_mark :: string where
  "diagnosis_mark = [CHR 0xEF, CHR 0xA3, CHR 0xBF, CHR 0xC3, CHR 0xBC, CHR 0xC3, CHR 0xAE, CHR 0xC3, CHR 0xA7]"

text \<open>\<open>c.toUpperCase()\<close> on one character, for the ASCII letters.\<close>

definition toUpperCase :: "char \<Rightarrow> char" where
  "toUpperCase c =
     (let n = (of_char c :: nat) in if 97 \<le> n \<and> n \<le> 122 then char_of (n - 32) else c)"

text \<open>\<open>priority.charAt(0).toUpperCase() + priority.slice(1)\<close>.\<close>

definition capitalized :: "string \<Rightarrow> string" where
  "capitalized s = map toUpperCase (take 1 s) @ drop 1 s"

definition fence :: string where
  "fence = [CHR 0x60, CHR 0x60, CHR 0x60]"

definition render_solution :: "string \<Rightarrow> snippet \<Rightarrow> string" where
  "render_solution output solution =
     output @ ''#### '' @ snip_title solution @ ''\<newline>\<newline>'' @
     fence @ snip_type solution @ ''\<newline>'' @ code solution @ ''\<newline>'' @ fence @
     ''\<newline>\<newline>''"

definition render_fix :: "string \<Rightarrow> fixrec \<Rightarrow> string" where
  "render_fix output f =
     (let out1 = output @ ''### '' @ fix_title f @ ''\<newline>\<newline>'' @
                 ''**Impact**: '' @ impact f @ ''\<newline>\<newline>'' @
                 str_of (fix_description f) @ ''\<newline>\<newline>'';
          out2 = (if truthy_str (diagnosis f)
                  then out1 @ ''**'' @ diagnosis_mark @ '' Diagnosis**: '' @ the (diagnosis f) @
                       ''\<newline>\<newline>''
                  else out1);
          out3 = foldl render_solution out2 (fix_fixes f)
      in out3 @ ''---\<newline>\<newline>'')"

definition heading :: "priority \<Rightarrow> string" where
  "heading p =
     ''## '' @ emoji p @ '' '' @ capitalized (priority_name p) @ '' Priority\<newline>\<newline>''"

definition render_group :: "string \<Rightarrow> priority \<times> fixrec list \<Rightarrow> string" where
  "render_group output g =
     (case g of (p, group_items) \<Rightarrow>
        if length group_items = 0 then output
        else foldl render_fix (output @ heading p) group_items)"

definition formatOutput :: "generator \<Rightarrow> string \<times> generator" where
  "formatOutput this =
     (let output = ''# Lighthouse Fix Suggestions\<newline>\<newline>'' in
      if length (gen_fixes this) = 0
      then (output @ ''No issues found! Great job!\<newline>'', this)
      else
        (let this' = this\<lparr>gen_fixes :=
                js_sort (\<lambda>a b. priorityOrder (priority a) - priorityOrder (priority b)) (gen_fixes this)\<rparr>;
             grouped =
               [(High, filter (\<lambda>f. priority f = High) (gen_fixes this')),
                (Medium, filter (\<lambda>f. priority f = Medium) (gen_fixes this')),
                (Low, filter (\<lambda>f. priority f = Low) (gen_fixes this'))]
         in (foldl render_group output grouped, this')))"

definition generate :: "(rat \<Rightarrow> string) \<Rightarrow> generator \<Rightarrow> string \<times> generator" where
  "generate ts this =
     formatOutput
       (analyzeBestPracticesIssues ts
          (analyzeSeoIssues
             (analyzeAccessibilityIssues ts
                (analyzePerformanceIssues ts this))))"

section \<open>Sequences of analyzer queries\<close>

datatype query =
  GetSummary | GetFailedAudits "string option" | GetOpportunities | GetDiagnostics | GetCoreWebVitals

text \<open>The analyzer after one query (the value returned, or the exception, is dropped).\<close>

fun perform :: "analyzer \<Rightarrow> query \<Rightarrow> analyzer" where
  "perform this GetSummary = snd (getSummary this)"
| "perform this (GetFailedAudits categoryId) = snd (getFailedAudits categoryId this)"
| "perform this GetOpportunities = snd (getOpportunities this)"
| "perform this GetDiagnostics = snd (getDiagnostics this)"
| "perform this GetCoreWebVitals = snd (getCoreWebVitals this)"

section \<open>Concrete reports\<close>

definition no_item :: item where
  "no_item =
     \<lparr>url = None, wastedBytes = Undefined, totalBytes = Undefined, node_nodeLabel = None,
      source = None, item_description = None, sourceLocation_url = None, item_type = None,
      item_items = None, nodeLabel = None, selector = None\<rparr>"

definition no_audit :: audit where
  "no_audit =
     \<lparr>audit_id = None, audit_title = None, audit_description = None, score = Undefined,
      scoreDisplayMode = None, numericValue = Undefined, numericUnit = None,
      displayValue = None, rating = None, details = None\<rparr>"

definition mk_audit :: "string \<Rightarrow> jsnum \<Rightarrow> audit" where
  "mk_audit i s = no_audit\<lparr>audit_id := Some i, audit_title := Some i,
     audit_description := Some ''d'', score := s, scoreDisplayMode := Some ''numeric''\<rparr>"

definition mk_category :: "string list \<Rightarrow> category" where
  "mk_category refs = \<lparr>cat_title = Some ''c'', cat_score = Num 0.5, auditRefs = Some refs\<rparr>"

definition mk_report :: "(string \<times> category) list \<Rightarrow> (string \<times> audit) list \<Rightarrow> report" where
  "mk_report cs as =
     \<lparr>requestedUrl = Some ''u'', finalUrl = Some ''u'', fetchTime = Some ''t'',
      lighthouseVersion = Some ''12'', categories = cs, audits = as\<rparr>"

text \<open>A slow server response, an audit that does not apply (null score) and a passing one.\<close>

definition report_mixed :: report where
  "report_mixed =
     mk_report
       [(''performance'',
           mk_category [''server-response-time'', ''speed-index'', ''first-contentful-paint'']),
        (''seo'', mk_category [''speed-index''])]
       [(''server-response-time'',
           (mk_audit ''server-response-time'' (Num 0.4))\<lparr>numericValue := Num 1200\<rparr>),
        (''speed-index'', mk_audit ''speed-index'' Null),
        (''first-contentful-paint'', mk_audit ''first-contentful-paint'' (Num 1))]"

text \<open>Only \<open>server-response-time\<close>, failing, with the given \<open>numericValue\<close>.\<close>

definition report_ttfb :: "rat \<Rightarrow> report" where
  "report_ttfb v =
     mk_report [(''performance'', mk_category [''server-response-time''])]
       [(''server-response-time'',
           (mk_audit ''server-response-time'' (Num 0.4))\<lparr>numericValue := Num v\<rparr>)]"

text \<open>One referenced audit with a null score.\<close>

definition report_null :: report where
  "report_null =
     mk_report [(''performance'', mk_category [''speed-index''])]
       [(''speed-index'', mk_audit ''speed-index'' Null)]"

text \<open>A reference to an audit the audits map does not have.\<close>

definition report_dangling :: report where
  "report_dangling = mk_report [(''performance'', mk_category [''missing''])] []"

text \<open>Every referenced audit passes.\<close>

definition report_passing :: report where
  "report_passing =
     mk_report [(''performance'', mk_category [''first-contentful-paint''])]
       [(''first-contentful-paint'', mk_audit ''first-contentful-paint'' (Num 1))]"

definition mk_opportunity :: "string \<Rightarrow> jsnum \<Rightarrow> jsnum \<Rightarrow> item list \<Rightarrow> audit" where
  "mk_opportunity i s ms its =
     (mk_audit i s)\<lparr>details :=
        Some \<lparr>details_type = Some ''opportunity'', overallSavingsMs = ms,
              overallSavingsBytes = Undefined, items = Some its\<rparr>\<rparr>"

text \<open>No category references \<open>unused-javascript\<close>, which fails and lists a framework chunk.\<close>

definition report_unreferenced :: report where
  "report_unreferenced =
     mk_report []
       [(''unused-javascript'',
           mk_opportunity ''unused-javascript'' (Num 0.5) (Num 150)
             [no_item\<lparr>url := Some ''https://x.io/_next/static/chunks/main.js'',
                      wastedBytes := Num 2048\<rparr>])]"

text \<open>A failing \<open>unused-javascript\<close> with one first-party file and one extension script.\<close>

definition items_unused :: "item list" where
  "items_unused =
     [no_item\<lparr>url := Some ''https://x.io/app.js'', wastedBytes := Num 3072,
              totalBytes := Num 4096\<rparr>,
      no_item\<lparr>url := Some ''chrome-extension://abc/content.js'', wastedBytes := Num 1024,
              totalBytes := Num 2048\<rparr>]"

definition report_unused :: report where
  "report_unused =
     mk_report [(''performance'', mk_category [''unused-javascript''])]
       [(''unused-javascript'',
           mk_opportunity ''unused-javascript'' (Num 0.5) (Num 150) items_unused)]"

text \<open>Three opportunities, two of them with the same savings.\<close>

definition report_opportunities :: report where
  "report_opportunities =
     mk_report []
       [(''a'', mk_opportunity ''a'' (Num 0.5) (Num 100) []),
        (''b'', mk_opportunity ''b'' (Num 0) (Num 300) []),
        (''passing'', mk_opportunity ''passing'' (Num 1) (Num 900) []),
        (''c'', mk_opportunity ''c'' Null (Num 100) []),
        (''d'', mk_audit ''d'' (Num 0.2))]"

text \<open>Diagnostic audits: one failing, one passing, one with a null score.\<close>

definition report_diagnostics :: report where
  "report_diagnostics =
     mk_report []
       [(''dom-size'', mk_audit ''dom-size'' Null),
        (''long-tasks'', mk_audit ''long-tasks'' (Num 1)),
        (''bootup-time'', mk_audit ''bootup-time'' (Num 0.5))]"

definition mk_fix :: "string \<Rightarrow> priority \<Rightarrow> fixrec" where
  "mk_fix t p =
     \<lparr>fix_title = t, priority = p, impact = ''i'', fix_description = Some ''d'',
      diagnosis = None, fix_fixes = []\<rparr>"

section \<open>Properties of the sort\<close>

lemma insert_by_insort_key:
  assumes "\<And>a b. (cmp a b \<le> 0) = (f a \<le> f b)"
  shows "insert_by cmp x ys = insort_key f x ys"
  by (induction ys) (simp_all add: assms)

lemma js_sort_sort_key:
  assumes "\<And>a b. (cmp a b \<le> 0) = (f a \<le> f b)"
  shows "js_sort cmp xs = sort_key f xs"
proof -
  have "insert_by cmp = insort_key f"
    using insert_by_insort_key [OF assms] by (intro ext)
  then show ?thesis by (simp add: js_sort_def sort_key_def)
qed

lemma set_insert_by: "set (insert_by cmp x ys) = insert x (set ys)"
  by (induction ys) auto

lemma set_js_sort: "set (js_sort cmp xs) = set xs"
  unfolding js_sort_def by (induction xs) (simp_all add: set_insert_by)

section \<open>Properties of the sums of doubles\<close>

text \<open>
  Natural numbers up to \<open>2 ^ 53\<close>, and their quotients by 1024, are doubles: rounding
  leaves them as they are, and a sum of such byte counts is the exact sum.
\<close>

lemma floor_log2_bounds:
  assumes "0 < q"
  shows "2 powi (floor_log2 q) \<le> q" and "q < 2 powi (floor_log2 q + 1)"
proof -
  have "2 powi (floor_log2 q) \<le> q \<and> q < 2 powi (floor_log2 q + 1)"
  proof (cases "1 \<le> q")
    case True
    define n where "n = \<lfloor>q\<rfloor>"
    have n: "0 < n" using True by (simp add: n_def)
    then have b1: "1 \<le> bitlen n" by (auto simp: bitlen_alt_def)
    from bitlen_bounds [OF n] have lo: "2 ^ nat (bitlen n - 1) \<le> n" and hi: "n < 2 ^ nat (bitlen n)"
      by auto
    have "(2::rat) ^ nat (bitlen n - 1) = of_int (2 ^ nat (bitlen n - 1))" by simp
    also have "\<dots> \<le> of_int n" using lo by (simp only: of_int_le_iff)
    also have "\<dots> \<le> q" by (simp add: n_def)
    finally have 1: "(2::rat) powi (bitlen n - 1) \<le> q"
      using b1 by (simp add: power_int_nonneg_exp)
    have "n + 1 \<le> 2 ^ nat (bitlen n)" using hi by simp
    then have "(of_int (n + 1) :: rat) \<le> of_int (2 ^ nat (bitlen n))"
      by (simp only: of_int_le_iff)
    moreover have "q < of_int (n + 1)" unfolding n_def by linarith
    ultimately have "q < (2::rat) ^ nat (bitlen n)" by simp
    then have 2: "q < (2::rat) powi (bitlen n - 1 + 1)"
      using b1 by (simp add: power_int_nonneg_exp)
    from 1 2 True show ?thesis by (simp add: floor_log2_def n_def)
  next
    case False
    define x where "x = 1 / q"
    define m where "m = \<lceil>x\<rceil> - 1"
    from False assms have x1: "1 < x" by (simp add: x_def)
    then have m: "0 < m" by (simp add: m_def less_ceiling_iff)
    from bitlen_bounds [OF m] have lo: "2 ^ nat (bitlen m - 1) \<le> m" and hi: "m < 2 ^ nat (bitlen m)"
      by auto
    from m have b1: "1 \<le> bitlen m" by (auto simp: bitlen_alt_def)
    have "m + 1 \<le> 2 ^ nat (bitlen m)" using hi by simp
    then have "(of_int (m + 1) :: rat) \<le> of_int (2 ^ nat (bitlen m))"
      by (simp only: of_int_le_iff)
    moreover have "x \<le> of_int (m + 1)" unfolding m_def by simp
    ultimately have xh: "x \<le> 2 ^ nat (bitlen m)" by simp
    have "(2::rat) ^ nat (bitlen m - 1) = of_int (2 ^ nat (bitlen m - 1))" by simp
    also have "\<dots> \<le> of_int m" using lo by (simp only: of_int_le_iff)
    also have "\<dots> < x" unfolding m_def by linarith
    finally have xl: "(2::rat) ^ nat (bitlen m - 1) < x" .
    have q: "q = 1 / x" using assms by (simp add: x_def)
    have "1 / (2::rat) ^ nat (bitlen m) \<le> 1 / x"
      using xh x1 by (intro divide_left_mono) simp_all
    then have 1: "(2::rat) powi (- bitlen m) \<le> q"
      using b1 by (simp add: q power_int_minus power_int_nonneg_exp field_simps)
    have "1 / x < 1 / (2::rat) ^ nat (bitlen m - 1)"
      using xl x1 by (intro divide_strict_left_mono) (simp_all add: zero_less_mult_iff)
    then have 2: "q < (2::rat) powi (- bitlen m + 1)"
    proof -
      have "(2::rat) powi (- bitlen m + 1) = 2 powi (- (bitlen m - 1))" by simp
      also have "\<dots> = 1 / 2 ^ nat (bitlen m - 1)"
        using b1 by (simp only: power_int_minus_divide) (simp add: power_int_nonneg_exp)
      finally show ?thesis using \<open>1 / x < 1 / (2::rat) ^ nat (bitlen m - 1)\<close> by (simp add: q)
    qed
    from 1 2 False show ?thesis by (simp add: floor_log2_def m_def x_def)
  qed
  then show "2 powi (floor_log2 q) \<le> q" and "q < 2 powi (floor_log2 q + 1)" by simp_all
qed

lemma round_even_of_int: "round_even (of_int m) = m"
  by (simp add: round_even_def)


lemma to_double_dyadic:
  fixes N :: int and k :: nat
  assumes "0 < N" and "N \<le> 2 ^ 53" and "k \<le> 10"
  shows "to_double (of_int N / 2 ^ k) = Finite (of_int N / 2 ^ k)"
proof -
  define q :: rat where "q = of_int N / 2 ^ k"
  define e where "e = floor_log2 q"
  have qpos: "0 < q" using assms(1) by (simp add: q_def)
  have lo: "2 powi e \<le> q" and hi: "q < 2 powi (e + 1)"
    unfolding e_def using floor_log2_bounds [OF qpos] by simp_all
  have qk: "q = of_int N * 2 powi (- int k)"
    by (simp add: q_def power_int_minus field_simps)
  have "(1::rat) \<le> of_int N" using assms(1) by simp
  then have "1 * (2::rat) powi (- int k) \<le> of_int N * 2 powi (- int k)"
    by (intro mult_right_mono) simp_all
  then have q_lo: "(2::rat) powi (- int k) \<le> q"
    unfolding qk by simp
  have "(of_int N :: rat) \<le> of_int (2 ^ 53)" using assms(2) by (simp only: of_int_le_iff)
  then have N53: "(of_int N :: rat) \<le> 2 ^ 53" by simp
  then have "q \<le> 2 ^ 53 * 2 powi (- int k)"
    unfolding qk by (simp add: mult_right_mono)
  also have "\<dots> = 2 powi (53 - int k)"
    by (simp add: power_int_diff power_int_minus field_simps)
  finally have q_hi: "q \<le> 2 powi (53 - int k)" .
  have ge: "- int k \<le> e"
  proof (rule ccontr)
    assume "\<not> - int k \<le> e"
    then have "e + 1 \<le> - int k" by simp
    then have "(2::rat) powi (e + 1) \<le> 2 powi (- int k)"
      by (intro power_int_increasing) simp_all
    with q_lo hi show False by simp
  qed
  have le: "e \<le> 53 - int k"
  proof (rule ccontr)
    assume "\<not> e \<le> 53 - int k"
    then have "53 - int k < e" by simp
    then have "(2::rat) powi (53 - int k) < 2 powi e"
      by (intro power_int_strict_increasing) simp_all
    with q_hi lo show False by simp
  qed
  from ge assms(3) have e_min: "max e (- 1022) = e" by simp
  have "\<exists>m::int. q / 2 powi (e - 52) = of_int m"
  proof (cases "e = 53 - int k")
    case True
    with lo have "(2::rat) powi (53 - int k) \<le> of_int N * 2 powi (- int k)" by (simp add: qk)
    then have "(2::rat) ^ 53 * 2 powi (- int k) \<le> of_int N * 2 powi (- int k)"
      by (simp add: power_int_diff power_int_minus field_simps)
    then have "(2::rat) ^ 53 \<le> of_int N" by simp
    with N53 have N: "(of_int N :: rat) = 2 ^ 53" by simp
    have "q / 2 powi (e - 52) = 2 ^ 53 * 2 powi (- int k) / 2 powi (1 - int k)"
      by (simp add: qk N True)
    also have "\<dots> = 2 ^ 52"
      by (simp add: power_int_diff power_int_minus field_simps)
    also have "\<dots> = of_int (2 ^ 52)" by simp
    finally show ?thesis by blast
  next
    case False
    with le have j: "0 \<le> 52 - e - int k" by simp
    have "q / 2 powi (e - 52) = of_int N * (2 powi (- int k) * 2 powi (52 - e))"
      by (simp add: qk power_int_diff power_int_minus field_simps)
    also have "2 powi (- int k) * (2::rat) powi (52 - e) = 2 powi (52 - e - int k)"
    proof -
      have "(2::rat) powi (- int k + (52 - e)) = 2 powi (- int k) * 2 powi (52 - e)"
        by (rule power_int_add) simp
      moreover have "- int k + (52 - e) = 52 - e - int k" by simp
      ultimately show ?thesis by simp
    qed
    also have "\<dots> = 2 ^ nat (52 - e - int k)"
      using j by (simp add: power_int_nonneg_exp)
    also have "of_int N * (2::rat) ^ nat (52 - e - int k) = of_int (N * 2 ^ nat (52 - e - int k))"
      by simp
    finally show ?thesis by blast
  qed
  then obtain m :: int where m: "q / 2 powi (e - 52) = of_int m" by blast
  then have r: "of_int (round_even (q / 2 powi (e - 52))) * 2 powi (e - 52) = q"
    by (simp add: round_even_of_int) (metis m nonzero_eq_divide_eq power_int_eq_0_iff zero_neq_numeral)
  have "q \<le> 2 ^ 53" using q_hi
  proof -
    have "(2::rat) powi (53 - int k) \<le> 2 powi 53" by (intro power_int_increasing) simp_all
    with q_hi show ?thesis by simp
  qed
  also have "(2::rat) ^ 53 < 2 ^ 1024" by simp
  finally have fin: "\<not> 2 powi 1024 \<le> \<bar>q\<bar>" using qpos by simp
  have "to_double q = Finite q"
    using qpos fin by (simp add: to_double_def Let_def e_def [symmetric] e_min r)
  then show ?thesis by (simp add: q_def)
qed

lemma to_double_nat:
  assumes "(of_nat n :: rat) \<le> 2 ^ 53"
  shows "to_double (of_nat n) = Finite (of_nat n)"
    and "to_double (of_nat n / 1024) = Finite (of_nat n / 1024)"
proof -
  have "to_double (of_nat n) = Finite (of_nat n) \<and>
        to_double (of_nat n / 1024) = Finite (of_nat n / 1024)"
  proof (cases "n = 0")
    case True
    then show ?thesis by (simp add: to_double_def)
  next
    case False
    then have pos: "0 < int n" by simp
    from assms have "(of_int (int n) :: rat) \<le> of_int (2 ^ 53)" by simp
    then have le: "int n \<le> 2 ^ 53" by (simp only: of_int_le_iff)
    from to_double_dyadic [OF pos le, of 0] to_double_dyadic [OF pos le, of 10]
    show ?thesis by simp
  qed
  then show "to_double (of_nat n) = Finite (of_nat n)"
    and "to_double (of_nat n / 1024) = Finite (of_nat n / 1024)" by simp_all
qed

lemma sum_list_Nats:
  assumes "\<forall>i \<in> set its. g i \<in> \<nat>"
  shows "sum_list (map g its) \<in> (\<nat> :: rat set)"
  using assms by (induction its) simp_all

lemma Nats_double:
  assumes "t \<in> \<nat>" and "(t::rat) \<le> 2 ^ 53"
  shows "to_double t = Finite t" and "to_double (t / 1024) = Finite (t / 1024)"
proof -
  from assms(1) obtain n where t: "t = of_nat n" by (rule Nats_cases)
  with assms(2) have "(of_nat n :: rat) \<le> 2 ^ 53" by simp
  then show "to_double t = Finite t" and "to_double (t / 1024) = Finite (t / 1024)"
    unfolding t by (rule to_double_nat)+
qed

lemma double_sum_exact:
  assumes "\<forall>i \<in> set its. g i \<in> \<nat>" and "z \<in> \<nat>"
    and "z + sum_list (map g its) \<le> 2 ^ 53"
  shows "foldl (\<lambda>s i. double_add s (Finite (g i))) (Finite z) its =
         Finite (z + sum_list (map g its))"
  using assms
proof (induction its arbitrary: z)
  case Nil
  show ?case by simp
next
  case (Cons x xs)
  from Cons.prems(1) have gx: "g x \<in> \<nat>" and rest: "\<forall>i \<in> set xs. g i \<in> \<nat>" by simp_all
  from gx Cons.prems(2) have zx: "z + g x \<in> \<nat>" by (rule Nats_add [rotated])
  from rest have "sum_list (map g xs) \<in> (\<nat> :: rat set)" by (rule sum_list_Nats)
  then have "0 \<le> sum_list (map g xs)" by (rule Nats_cases) simp
  with Cons.prems(3) have le: "z + g x \<le> 2 ^ 53" by simp
  have step: "to_double (z + g x) = Finite (z + g x)"
    by (rule Nats_double(1) [OF zx le])
  have "foldl (\<lambda>s i. double_add s (Finite (g i))) (Finite (z + g x)) xs =
        Finite (z + g x + sum_list (map g xs))"
    using rest zx Cons.prems(3) by (intro Cons.IH) (simp_all add: add.assoc)
  then show ?case by (simp add: step add.assoc)
qed

text \<open>Where the rounding shows: \<open>2 ^ 53 + 510 + 1\<close> is odd and the sum is the even neighbour.\<close>

lemma double_sum_rounds:
  "foldl (\<lambda>sum v. double_add sum (Finite v)) (Finite 0) [2 ^ 53, 510, 1] =
     Finite 9007199254741504"
  by code_simp

lemma double_sum_rounds_kb:
  "Math_round_double (div_1024 (Finite 9007199254741504)) = Finite 8796093022209"
  by code_simp

lemma exact_sum_kb:
  "Math_round ((2 ^ 53 + 510 + 1) / 1024) = 8796093022208"
  by code_simp

lemma rounded_kb_exact:
  assumes "t \<in> \<nat>" and "(t::rat) \<le> 2 ^ 53"
  shows "double_str ts (Math_round_double (div_1024 (Finite t))) = ts (Math_round (t / 1024))"
  by (simp add: div_1024_def Math_round_double_def Nats_double(2) [OF assms])

section \<open>Properties of the analyzer\<close>

lemma scan_opportunities_eq:
  "scan_opportunities xs acc = acc @ map to_opportunity (filter is_opportunity xs)"
  by (induction xs arbitrary: acc) simp_all

lemma getOpportunities_sort_key:
  "fst (getOpportunities this) =
     sort_key (\<lambda>p. - wastedMs p)
       (map to_opportunity (filter is_opportunity (Object_values (audits (lhr this)))))"
proof -
  have "\<And>a b :: opportunity. (wastedMs b - wastedMs a \<le> 0) = (- wastedMs a \<le> - wastedMs b)"
    by simp
  then show ?thesis
    by (simp add: getOpportunities_def scan_opportunities_eq js_sort_sort_key)
qed

lemma filter_failed_Inr:
  "filter_failed ms xs = Inr out \<Longrightarrow>
     out = filter (is_failed ms) (map the xs) \<and> None \<notin> set xs"
proof (induction ms xs arbitrary: out rule: filter_failed.induct)
  case (1 ms)
  then show ?case by simp
next
  case (2 ms rest)
  then show ?case by simp
next
  case (3 ms a rest)
  then show ?case by (auto split: sum.splits if_splits)
qed

lemma scan_diagnostics_eq:
  "scan_diagnostics r ids acc =
     acc @ map (\<lambda>i. to_diagnostic (the (lookup (audits r) i)))
             (filter (\<lambda>i. case lookup (audits r) i of None \<Rightarrow> False | Some a \<Rightarrow> js_lt (score a) 1) ids)"
  by (induction ids arbitrary: acc) (simp_all split: option.splits)

lemma int_str_small:
  "int_str 0 = ''0''" "int_str 1 = ''1''" "int_str 2 = ''2''" "int_str 3 = ''3''"
  "int_str 4 = ''4''" "int_str 150 = ''150''" "int_str 350 = ''350''"
  "int_str 1000 = ''1000''" "int_str 1200 = ''1200''"
  by code_simp+

text \<open>
  C1. Whenever \<open>getFailedAudits\<close> returns, for any category filter and any \<open>minScore\<close>,
  every audit in the result has a score that is not null and is a number below
  \<open>minScore\<close>, and a \<open>scoreDisplayMode\<close> other than \<open>manual\<close> and \<open>notApplicable\<close>.
\<close>

theorem getFailedAudits_only_failing:
  assumes "fst (getFailedAudits categoryId this) = Inr out" and "a \<in> set out"
  shows "score a \<noteq> Null \<and> (\<exists>x. score a = Num x \<and> x < minScore (options this)) \<and>
         scoreDisplayMode a \<noteq> Some ''manual'' \<and> scoreDisplayMode a \<noteq> Some ''notApplicable''"
proof -
  from assms(1) obtain xs where "filter_failed (minScore (options this)) xs = Inr out"
    by (auto simp: getFailedAudits_def split: sum.splits)
  then have "out = filter (is_failed (minScore (options this))) (map the xs)"
    by (simp add: filter_failed_Inr)
  with assms(2) have f: "is_failed (minScore (options this)) a" by simp
  then show ?thesis
    by (cases "score a") (simp_all add: is_failed_def js_lt_def)
qed

lemmas eval_report =
  mk_report_def mk_category_def mk_audit_def no_audit_def mk_opportunity_def
  analyzer_new_def generator_new_def lookup_def Object_values_def

theorem getFailedAudits_only_failing_witness:
  "fst (getFailedAudits None (analyzer_new ''r'' None Undefined False report_mixed)) =
     Inr [(mk_audit ''server-response-time'' (Num 0.4))\<lparr>numericValue := Num 1200\<rparr>] \<and>
   score ((mk_audit ''server-response-time'' (Num 0.4))\<lparr>numericValue := Num 1200\<rparr>) \<noteq> Null \<and>
   (\<exists>x. score ((mk_audit ''server-response-time'' (Num 0.4))\<lparr>numericValue := Num 1200\<rparr>) = Num x \<and>
        x < minScore (options (analyzer_new ''r'' None Undefined False report_mixed))) \<and>
   scoreDisplayMode ((mk_audit ''server-response-time'' (Num 0.4))\<lparr>numericValue := Num 1200\<rparr>)
     \<noteq> Some ''manual'' \<and>
   scoreDisplayMode ((mk_audit ''server-response-time'' (Num 0.4))\<lparr>numericValue := Num 1200\<rparr>)
     \<noteq> Some ''notApplicable''"
proof -
  let ?A = "analyzer_new ''r'' None Undefined False report_mixed"
  let ?a = "(mk_audit ''server-response-time'' (Num 0.4))\<lparr>numericValue := Num 1200\<rparr>"
  have run: "fst (getFailedAudits None ?A) = Inr [?a]"
    by (simp add: getFailedAudits_def collect_refs_def report_mixed_def eval_report
        is_failed_def js_lt_def)
  have "?a \<in> set [?a]" by simp
  from getFailedAudits_only_failing [OF run this] run show ?thesis by blast
qed

text \<open>
  C3. A reference to an audit that the audits map does not hold is not skipped: the filter
  reads \<open>.score\<close> of \<open>undefined\<close> and \<open>getFailedAudits\<close> raises a \<open>TypeError\<close>.
\<close>

theorem getFailedAudits_dangling_raises:
  "fst (getFailedAudits None (analyzer_new ''r'' None Undefined False report_dangling)) =
     Inl TypeError"
  by (simp add: getFailedAudits_def collect_refs_def report_dangling_def eval_report)

text \<open>
  C4. The result of \<open>getOpportunities\<close> is sorted by \<open>wastedMs\<close>, largest first; entries
  with the same \<open>wastedMs\<close> keep the order in which the audits map was scanned; the entries
  are exactly the projections of the audits with \<open>details.type === 'opportunity'\<close> and
  \<open>score < 1\<close>; and \<open>wastedMs\<close> is \<open>overallSavingsMs\<close>, or 0 when that is absent.
\<close>

theorem getOpportunities_sorted_stable:
  "sorted_wrt (\<lambda>a b. wastedMs a \<ge> wastedMs b) (fst (getOpportunities this)) \<and>
   (\<forall>w. filter (\<lambda>p. wastedMs p = w) (fst (getOpportunities this)) =
        filter (\<lambda>p. wastedMs p = w)
          (map to_opportunity (filter is_opportunity (Object_values (audits (lhr this)))))) \<and>
   mset (fst (getOpportunities this)) =
     mset (map to_opportunity (filter is_opportunity (Object_values (audits (lhr this))))) \<and>
   (\<forall>a. is_opportunity a =
        (\<exists>d. details a = Some d \<and> details_type d = Some ''opportunity'' \<and> js_lt (score a) 1)) \<and>
   (\<forall>a d. details a = Some d \<longrightarrow>
        wastedMs (to_opportunity a) =
          (case overallSavingsMs d of Num x \<Rightarrow> x | _ \<Rightarrow> 0))"
proof -
  let ?cands = "map to_opportunity (filter is_opportunity (Object_values (audits (lhr this))))"
  have eq: "fst (getOpportunities this) = sort_key (\<lambda>p. - wastedMs p) ?cands"
    by (rule getOpportunities_sort_key)
  have "sorted (map (\<lambda>p. - wastedMs p) (sort_key (\<lambda>p. - wastedMs p) ?cands))"
    by (rule sorted_sort_key)
  then have 1: "sorted_wrt (\<lambda>a b. wastedMs a \<ge> wastedMs b) (fst (getOpportunities this))"
    by (simp add: eq sorted_map)
  have 2: "filter (\<lambda>p. wastedMs p = w) (fst (getOpportunities this)) =
        filter (\<lambda>p. wastedMs p = w) ?cands" for w
    using sort_key_stable [of "\<lambda>p. - wastedMs p" "- w" ?cands] by (simp add: eq)
  have 3: "mset (fst (getOpportunities this)) = mset ?cands"
    by (simp add: eq)
  have 4: "is_opportunity a =
        (\<exists>d. details a = Some d \<and> details_type d = Some ''opportunity'' \<and> js_lt (score a) 1)" for a
    by (simp add: is_opportunity_def split: option.splits)
  have 5: "details a = Some d \<longrightarrow>
        wastedMs (to_opportunity a) = (case overallSavingsMs d of Num x \<Rightarrow> x | _ \<Rightarrow> 0)" for a d
    by (cases "overallSavingsMs d") (simp_all add: to_opportunity_def)
  from 1 2 3 4 5 show ?thesis by blast
qed

theorem getOpportunities_sorted_stable_witness:
  "map opp_id (fst (getOpportunities (analyzer_new ''r'' None Undefined False report_opportunities)))
     = [Some ''b'', Some ''a'', Some ''c''] \<and>
   sorted_wrt (\<lambda>a b. wastedMs a \<ge> wastedMs b)
     (fst (getOpportunities (analyzer_new ''r'' None Undefined False report_opportunities)))"
proof -
  let ?A = "analyzer_new ''r'' None Undefined False report_opportunities"
  have "map opp_id (fst (getOpportunities ?A)) = [Some ''b'', Some ''a'', Some ''c'']"
    by (simp add: getOpportunities_def js_sort_def report_opportunities_def eval_report
        is_opportunity_def to_opportunity_def js_lt_def)
  with getOpportunities_sorted_stable [of ?A] show ?thesis by blast
qed

text \<open>
  C10. \<open>getDiagnostics\<close> walks the six diagnostic ids in their fixed order and keeps each
  audit that is present with \<open>score < 1\<close>; \<open>null < 1\<close> holds, so a present diagnostic
  audit with a null score is in the result.
\<close>

theorem getDiagnostics_keeps_null_scores:
  "fst (getDiagnostics this) =
     map (\<lambda>i. to_diagnostic (the (lookup (audits (lhr this)) i)))
       (filter (\<lambda>i. case lookup (audits (lhr this)) i of
                      None \<Rightarrow> False | Some a \<Rightarrow> js_lt (score a) 1)
          [''bootup-time'', ''mainthread-work-breakdown'', ''long-tasks'', ''dom-size'',
           ''network-requests'', ''total-byte-weight'']) \<and>
   js_lt Null 1 \<and>
   (\<forall>i a. i \<in> set diagnosticIds \<and> lookup (audits (lhr this)) i = Some a \<and> score a = Null
      \<longrightarrow> to_diagnostic a \<in> set (fst (getDiagnostics this)))"
proof -
  let ?keep = "\<lambda>i. case lookup (audits (lhr this)) i of
                      None \<Rightarrow> False | Some a \<Rightarrow> js_lt (score a) 1"
  have eq: "fst (getDiagnostics this) =
     map (\<lambda>i. to_diagnostic (the (lookup (audits (lhr this)) i))) (filter ?keep diagnosticIds)"
    by (simp add: getDiagnostics_def scan_diagnostics_eq)
  have null: "js_lt Null 1" by (simp add: js_lt_def)
  have "to_diagnostic a \<in> set (fst (getDiagnostics this))"
    if "i \<in> set diagnosticIds" "lookup (audits (lhr this)) i = Some a" "score a = Null" for i a
  proof -
    from that null have "i \<in> set (filter ?keep diagnosticIds)" by simp
    then have "to_diagnostic (the (lookup (audits (lhr this)) i)) \<in> set (fst (getDiagnostics this))"
      unfolding eq set_map by (rule imageI)
    with that show ?thesis by simp
  qed
  with eq null show ?thesis unfolding diagnosticIds_def by blast
qed

theorem getDiagnostics_keeps_null_scores_witness:
  "map diag_id (fst (getDiagnostics (analyzer_new ''r'' None Undefined False report_diagnostics)))
     = [Some ''bootup-time'', Some ''dom-size''] \<and>
   to_diagnostic (mk_audit ''dom-size'' Null)
     \<in> set (fst (getDiagnostics (analyzer_new ''r'' None Undefined False report_diagnostics)))"
proof -
  let ?A = "analyzer_new ''r'' None Undefined False report_diagnostics"
  have 1: "''dom-size'' \<in> set diagnosticIds" by (simp add: diagnosticIds_def)
  have 2: "lookup (audits (lhr ?A)) ''dom-size'' = Some (mk_audit ''dom-size'' Null)"
    by (simp add: report_diagnostics_def eval_report)
  have 3: "score (mk_audit ''dom-size'' Null) = Null" by (simp add: mk_audit_def)
  have 4: "map diag_id (fst (getDiagnostics ?A)) = [Some ''bootup-time'', Some ''dom-size'']"
    by (simp add: getDiagnostics_def diagnosticIds_def report_diagnostics_def eval_report
        to_diagnostic_def js_lt_def)
  from getDiagnostics_keeps_null_scores [of ?A] 1 2 3 4 show ?thesis by blast
qed

section \<open>Properties of the fix generator\<close>

text \<open>Every rule, every pass and the framework check only append to the fix list.\<close>

lemma addFix_adds: "\<exists>fs. addFix f this = this\<lparr>gen_fixes := gen_fixes this @ fs\<rparr>"
  by (auto simp: addFix_def)

lemma adds_refl: "\<exists>fs. (this::generator) = this\<lparr>gen_fixes := gen_fixes this @ fs\<rparr>"
  by (rule exI [of _ "[]"]) simp

lemma adds_trans:
  assumes "\<exists>fs. (t1::generator) = t0\<lparr>gen_fixes := gen_fixes t0 @ fs\<rparr>"
    and "\<exists>fs. (t2::generator) = t1\<lparr>gen_fixes := gen_fixes t1 @ fs\<rparr>"
  shows "\<exists>fs. t2 = t0\<lparr>gen_fixes := gen_fixes t0 @ fs\<rparr>"
proof -
  from assms(1) obtain fs1 where 1: "t1 = t0\<lparr>gen_fixes := gen_fixes t0 @ fs1\<rparr>" by blast
  from assms(2) obtain fs2 where 2: "t2 = t1\<lparr>gen_fixes := gen_fixes t1 @ fs2\<rparr>" by blast
  have "t2 = t0\<lparr>gen_fixes := gen_fixes t0 @ (fs1 @ fs2)\<rparr>"
    unfolding 2 unfolding 1 by simp
  then show ?thesis by blast
qed

lemma adds_lhr:
  assumes "\<exists>fs. (t1::generator) = t0\<lparr>gen_fixes := gen_fixes t0 @ fs\<rparr>"
  shows "lhr t1 = lhr t0"
  using assms by auto

lemma adds_keeps:
  assumes "\<exists>fs. (t1::generator) = t0\<lparr>gen_fixes := gen_fixes t0 @ fs\<rparr>"
    and "f \<in> set (gen_fixes t0)"
  shows "f \<in> set (gen_fixes t1)"
  using assms by auto

lemma rules_add:
  "\<exists>fs. addServerResponseTimeFixes ts a this = this\<lparr>gen_fixes := gen_fixes this @ fs\<rparr>"
  "\<exists>fs. addUnusedJavaScriptFixes ts a this = this\<lparr>gen_fixes := gen_fixes this @ fs\<rparr>"
  "\<exists>fs. addSpeedIndexFixes a this = this\<lparr>gen_fixes := gen_fixes this @ fs\<rparr>"
  "\<exists>fs. addLCPBreakdownFixes ts a this = this\<lparr>gen_fixes := gen_fixes this @ fs\<rparr>"
  "\<exists>fs. addDocumentLatencyFixes ts a this = this\<lparr>gen_fixes := gen_fixes this @ fs\<rparr>"
  "\<exists>fs. addFIDFixes ts a this = this\<lparr>gen_fixes := gen_fixes this @ fs\<rparr>"
  "\<exists>fs. addColorContrastFixes ts a this = this\<lparr>gen_fixes := gen_fixes this @ fs\<rparr>"
  "\<exists>fs. addHeadingOrderFixes a this = this\<lparr>gen_fixes := gen_fixes this @ fs\<rparr>"
  "\<exists>fs. addMetaDescriptionFixes a this = this\<lparr>gen_fixes := gen_fixes this @ fs\<rparr>"
  "\<exists>fs. addCanonicalFixes a this = this\<lparr>gen_fixes := gen_fixes this @ fs\<rparr>"
  "\<exists>fs. addConsoleErrorsFixes ts a this = this\<lparr>gen_fixes := gen_fixes this @ fs\<rparr>"
  "\<exists>fs. addSourceMapsFixes ts a this = this\<lparr>gen_fixes := gen_fixes this @ fs\<rparr>"
  "\<exists>fs. addBFCacheFixes ts a this = this\<lparr>gen_fixes := gen_fixes this @ fs\<rparr>"
  "\<exists>fs. addNextJsOptimizationFixes ts chunks this = this\<lparr>gen_fixes := gen_fixes this @ fs\<rparr>"
  unfolding addServerResponseTimeFixes_def addUnusedJavaScriptFixes_def addSpeedIndexFixes_def
    addLCPBreakdownFixes_def addDocumentLatencyFixes_def addFIDFixes_def addColorContrastFixes_def
    addHeadingOrderFixes_def addMetaDescriptionFixes_def addCanonicalFixes_def
    addConsoleErrorsFixes_def addSourceMapsFixes_def addBFCacheFixes_def
    addNextJsOptimizationFixes_def Let_def
  by (rule addFix_adds)+

lemma switches_add:
  "\<exists>fs. performance_switch ts a this = this\<lparr>gen_fixes := gen_fixes this @ fs\<rparr>"
  "\<exists>fs. accessibility_switch ts a this = this\<lparr>gen_fixes := gen_fixes this @ fs\<rparr>"
  "\<exists>fs. seo_switch a this = this\<lparr>gen_fixes := gen_fixes this @ fs\<rparr>"
  "\<exists>fs. best_practices_switch ts a this = this\<lparr>gen_fixes := gen_fixes this @ fs\<rparr>"
  unfolding performance_switch_def accessibility_switch_def seo_switch_def
    best_practices_switch_def
  by (simp_all only: rules_add adds_refl if_split [where P = "\<lambda>t. \<exists>fs. t = _ fs"] simp_thms)

lemma for_each_ref_adds:
  assumes "\<And>a t. \<exists>fs. switch a t = t\<lparr>gen_fixes := gen_fixes t @ fs\<rparr>"
  shows "\<exists>fs. for_each_ref switch refs this = this\<lparr>gen_fixes := gen_fixes this @ fs\<rparr>"
proof (induction refs arbitrary: this)
  case Nil
  show ?case by (simp add: adds_refl)
next
  case (Cons r refs)
  let ?t1 = "case lookup (audits (lhr this)) r of
          None \<Rightarrow> this
        | Some a \<Rightarrow> if js_ge (score a) 0.9 then this else switch a this"
  have "\<exists>fs. ?t1 = this\<lparr>gen_fixes := gen_fixes this @ fs\<rparr>"
    by (simp only: assms adds_refl split: option.split if_split) simp
  moreover have "\<exists>fs. for_each_ref switch refs ?t1 = ?t1\<lparr>gen_fixes := gen_fixes ?t1 @ fs\<rparr>"
    by (rule Cons.IH)
  ultimately have "\<exists>fs. for_each_ref switch refs ?t1 = this\<lparr>gen_fixes := gen_fixes this @ fs\<rparr>"
    by (rule adds_trans)
  then show ?case by simp
qed

lemma checkFramework_adds:
  "\<exists>fs. checkFrameworkSpecificIssues ts this = this\<lparr>gen_fixes := gen_fixes this @ fs\<rparr>"
  unfolding checkFrameworkSpecificIssues_def Let_def
  by (simp only: rules_add adds_refl split: option.split if_split) simp

lemma passes_add:
  "\<exists>fs. analyzePerformanceIssues ts this = this\<lparr>gen_fixes := gen_fixes this @ fs\<rparr>"
  "\<exists>fs. analyzeAccessibilityIssues ts this = this\<lparr>gen_fixes := gen_fixes this @ fs\<rparr>"
  "\<exists>fs. analyzeSeoIssues this = this\<lparr>gen_fixes := gen_fixes this @ fs\<rparr>"
  "\<exists>fs. analyzeBestPracticesIssues ts this = this\<lparr>gen_fixes := gen_fixes this @ fs\<rparr>"
proof -
  show "\<exists>fs. analyzePerformanceIssues ts this = this\<lparr>gen_fixes := gen_fixes this @ fs\<rparr>"
    unfolding analyzePerformanceIssues_def
    by (rule adds_trans [OF for_each_ref_adds [OF switches_add(1)] checkFramework_adds])
  show "\<exists>fs. analyzeAccessibilityIssues ts this = this\<lparr>gen_fixes := gen_fixes this @ fs\<rparr>"
    unfolding analyzeAccessibilityIssues_def by (rule for_each_ref_adds [OF switches_add(2)])
  show "\<exists>fs. analyzeSeoIssues this = this\<lparr>gen_fixes := gen_fixes this @ fs\<rparr>"
    unfolding analyzeSeoIssues_def by (rule for_each_ref_adds [OF switches_add(3)])
  show "\<exists>fs. analyzeBestPracticesIssues ts this = this\<lparr>gen_fixes := gen_fixes this @ fs\<rparr>"
    unfolding analyzeBestPracticesIssues_def by (rule for_each_ref_adds [OF switches_add(4)])
qed

text \<open>A reference that is skipped leaves the generator as it is.\<close>

lemma for_each_ref_skips:
  assumes "\<forall>r \<in> set refs. \<forall>a. lookup (audits (lhr this)) r = Some a \<longrightarrow> js_ge (score a) 0.9"
  shows "for_each_ref switch refs this = this"
  using assms by (induction refs) (auto split: option.splits)

text \<open>A reference that is not skipped leaves the fix its rule adds in the list.\<close>

lemma for_each_ref_emits:
  assumes adds: "\<And>b t. \<exists>fs. switch b t = t\<lparr>gen_fixes := gen_fixes t @ fs\<rparr>"
    and "r \<in> set refs" and "lookup (audits (lhr this)) r = Some a"
    and "\<not> js_ge (score a) 0.9" and rule: "\<And>t. switch a t = addFix f t"
  shows "f \<in> set (gen_fixes (for_each_ref switch refs this))"
  using assms(2,3)
proof (induction refs arbitrary: this)
  case Nil
  then show ?case by simp
next
  case (Cons r' refs)
  let ?t1 = "case lookup (audits (lhr this)) r' of
          None \<Rightarrow> this
        | Some b \<Rightarrow> if js_ge (score b) 0.9 then this else switch b this"
  have step: "\<exists>fs. ?t1 = this\<lparr>gen_fixes := gen_fixes this @ fs\<rparr>"
    by (simp only: adds adds_refl split: option.split if_split) simp
  have rest: "\<exists>fs. for_each_ref switch refs ?t1 = ?t1\<lparr>gen_fixes := gen_fixes ?t1 @ fs\<rparr>"
    by (rule for_each_ref_adds [OF adds])
  show ?case
  proof (cases "r = r'")
    case True
    with Cons.prems assms(4) have "?t1 = addFix f this" by (simp add: rule)
    then have "f \<in> set (gen_fixes ?t1)" by (simp add: addFix_def)
    with rest have "f \<in> set (gen_fixes (for_each_ref switch refs ?t1))" by (rule adds_keeps)
    then show ?thesis by simp
  next
    case False
    with Cons.prems have "r \<in> set refs" by simp
    moreover from step Cons.prems have "lookup (audits (lhr ?t1)) r = Some a"
      by (simp only: adds_lhr)
    ultimately have "f \<in> set (gen_fixes (for_each_ref switch refs ?t1))" by (rule Cons.IH)
    then show ?thesis by simp
  qed
qed

subsection \<open>What formatOutput writes\<close>

lemma render_solution_append: "render_solution out s = out @ render_solution [] s"
  by (simp add: render_solution_def)

lemma foldl_render_solution:
  "foldl render_solution out ss = out @ concat (map (render_solution []) ss)"
proof (induction ss arbitrary: out)
  case Nil
  show ?case by simp
next
  case (Cons s ss)
  show ?case by (simp add: Cons.IH render_solution_append [of out])
qed

lemma render_fix_append: "render_fix out f = out @ render_fix [] f"
  by (simp add: render_fix_def Let_def foldl_render_solution)

lemma foldl_render_fix: "foldl render_fix out fs = out @ concat (map (render_fix []) fs)"
proof (induction fs arbitrary: out)
  case Nil
  show ?case by simp
next
  case (Cons f fs)
  show ?case by (simp add: Cons.IH render_fix_append [of out])
qed

lemma render_group_append:
  "render_group out (p, fs) =
     out @ (if fs = [] then [] else heading p @ concat (map (render_fix []) fs))"
  by (simp add: render_group_def foldl_render_fix)

lemma priorityOrder_le:
  "(priorityOrder (priority a) - priorityOrder (priority b) \<le> 0) =
   (priorityOrder (priority a) \<le> priorityOrder (priority b))"
  by simp

lemma priorityOrder_inj: "(priorityOrder p = priorityOrder q) = (p = q)"
  by (cases p; cases q) (simp_all add: priorityOrder_def)

lemma filter_priority_sorted:
  "filter (\<lambda>f. priority f = p)
     (js_sort (\<lambda>a b. priorityOrder (priority a) - priorityOrder (priority b)) fs) =
   filter (\<lambda>f. priority f = p) fs"
proof -
  have "js_sort (\<lambda>a b. priorityOrder (priority a) - priorityOrder (priority b)) fs =
        sort_key (\<lambda>f. priorityOrder (priority f)) fs"
    by (rule js_sort_sort_key) simp
  moreover have "filter (\<lambda>f. priorityOrder (priority f) = priorityOrder p)
        (sort_key (\<lambda>f. priorityOrder (priority f)) fs) =
      filter (\<lambda>f. priorityOrder (priority f) = priorityOrder p) fs"
    by (rule sort_key_stable)
  ultimately show ?thesis by (simp add: priorityOrder_inj)
qed

lemma formatOutput_text:
  "fst (formatOutput this) =
     ''# Lighthouse Fix Suggestions\<newline>\<newline>'' @
     (if gen_fixes this = [] then ''No issues found! Great job!\<newline>''
      else
        (if filter (\<lambda>f. priority f = High) (gen_fixes this) = [] then []
         else heading High @
              concat (map (render_fix []) (filter (\<lambda>f. priority f = High) (gen_fixes this)))) @
        (if filter (\<lambda>f. priority f = Medium) (gen_fixes this) = [] then []
         else heading Medium @
              concat (map (render_fix []) (filter (\<lambda>f. priority f = Medium) (gen_fixes this)))) @
        (if filter (\<lambda>f. priority f = Low) (gen_fixes this) = [] then []
         else heading Low @
              concat (map (render_fix []) (filter (\<lambda>f. priority f = Low) (gen_fixes this)))))"
  by (simp add: formatOutput_def Let_def render_group_append filter_priority_sorted
      del: filter.simps)

lemma formatOutput_state:
  "\<exists>fs. snd (formatOutput this) = this\<lparr>gen_fixes := fs\<rparr> \<and> set fs = set (gen_fixes this)"
proof (cases "gen_fixes this = []")
  case True
  then have "snd (formatOutput this) = this\<lparr>gen_fixes := []\<rparr>"
    by (simp add: formatOutput_def)
  with True show ?thesis by auto
next
  case False
  then have "snd (formatOutput this) = this\<lparr>gen_fixes :=
      js_sort (\<lambda>a b. priorityOrder (priority a) - priorityOrder (priority b)) (gen_fixes this)\<rparr>"
    by (simp add: formatOutput_def Let_def)
  then show ?thesis by (auto simp: set_js_sort)
qed

lemma headings:
  "heading High = ''## '' @ emoji High @ '' High Priority\<newline>\<newline>''"
  "heading Medium = ''## '' @ emoji Medium @ '' Medium Priority\<newline>\<newline>''"
  "heading Low = ''## '' @ emoji Low @ '' Low Priority\<newline>\<newline>''"
  by code_simp+

lemma generate_keeps:
  assumes "f \<in> set (gen_fixes (analyzePerformanceIssues ts this))"
  shows "f \<in> set (gen_fixes (snd (generate ts this)))"
proof -
  let ?t1 = "analyzePerformanceIssues ts this"
  let ?t2 = "analyzeAccessibilityIssues ts ?t1"
  let ?t3 = "analyzeSeoIssues ?t2"
  let ?t4 = "analyzeBestPracticesIssues ts ?t3"
  from passes_add(2) assms have "f \<in> set (gen_fixes ?t2)" by (rule adds_keeps)
  with passes_add(3) have "f \<in> set (gen_fixes ?t3)" by (rule adds_keeps)
  with passes_add(4) have "f \<in> set (gen_fixes ?t4)" by (rule adds_keeps)
  moreover obtain fs where "snd (formatOutput ?t4) = ?t4\<lparr>gen_fixes := fs\<rparr>"
    and "set fs = set (gen_fixes ?t4)"
    using formatOutput_state [of ?t4] by blast
  ultimately show ?thesis by (simp add: generate_def)
qed

lemma performance_emits:
  assumes "r \<in> set (refs_of (lhr this) ''performance'')"
    and "lookup (audits (lhr this)) r = Some a"
    and "\<not> js_ge (score a) 0.9"
    and "\<And>t. performance_switch ts a t = addFix f t"
  shows "f \<in> set (gen_fixes (snd (generate ts this)))"
proof -
  have "f \<in> set (gen_fixes
      (for_each_ref (performance_switch ts) (refs_of (lhr this) ''performance'') this))"
    using switches_add(1) assms by (rule for_each_ref_emits)
  with checkFramework_adds have "f \<in> set (gen_fixes (analyzePerformanceIssues ts this))"
    unfolding analyzePerformanceIssues_def by (rule adds_keeps)
  then show ?thesis by (rule generate_keeps)
qed

lemma generate_state:
  "\<exists>fs. snd (generate ts this) = this\<lparr>gen_fixes := fs\<rparr>"
proof -
  let ?t1 = "analyzePerformanceIssues ts this"
  let ?t2 = "analyzeAccessibilityIssues ts ?t1"
  let ?t3 = "analyzeSeoIssues ?t2"
  let ?t4 = "analyzeBestPracticesIssues ts ?t3"
  have a1: "\<exists>fs. ?t1 = this\<lparr>gen_fixes := gen_fixes this @ fs\<rparr>"
    by (rule passes_add)
  have a2: "\<exists>fs. ?t2 = this\<lparr>gen_fixes := gen_fixes this @ fs\<rparr>"
    by (rule adds_trans [OF a1 passes_add(2)])
  have a3: "\<exists>fs. ?t3 = this\<lparr>gen_fixes := gen_fixes this @ fs\<rparr>"
    by (rule adds_trans [OF a2 passes_add(3)])
  have "\<exists>fs. ?t4 = this\<lparr>gen_fixes := gen_fixes this @ fs\<rparr>"
    by (rule adds_trans [OF a3 passes_add(4)])
  then obtain fs where 4: "?t4 = this\<lparr>gen_fixes := gen_fixes this @ fs\<rparr>" by blast
  obtain fs' where "snd (formatOutput ?t4) = ?t4\<lparr>gen_fixes := fs'\<rparr>"
    using formatOutput_state [of ?t4] by blast
  then have "snd (generate ts this) = ?t4\<lparr>gen_fixes := fs'\<rparr>" by (simp add: generate_def)
  also have "\<dots> = this\<lparr>gen_fixes := fs'\<rparr>" by (subst 4) simp
  finally show ?thesis by blast
qed

lemma js_ge_failing: "x < 0.9 \<Longrightarrow> \<not> js_ge (Num x) 0.9"
  by (simp add: js_ge_def)

text \<open>
  C6, amended. When the performance category references \<open>server-response-time\<close>, the
  audit is in the audits map under that id and has a score below 0.9, \<open>generate\<close> emits
  the server-response-time fix, and its diagnosis is chosen by \<open>numericValue\<close> (0 when
  absent) with strict lower bounds: above 1000 critically high, above 600 elevated, above
  400 moderate, otherwise acceptable. A value equal to a bound falls in the tier below.
\<close>

theorem server_response_time_diagnosis:
  assumes "''server-response-time'' \<in> set (refs_of (lhr this) ''performance'')"
    and "lookup (audits (lhr this)) ''server-response-time'' = Some a"
    and "audit_id a = Some ''server-response-time''"
    and "score a = Num x" and "x < 0.9"
  shows "\<exists>f \<in> set (gen_fixes (snd (generate ts this))).
           fix_title f =
             ''Reduce Server Response Time (TTFB: '' @ ts (Math_round (num_or (numericValue a) 0)) @
             ''ms)'' \<and>
           diagnosis f =
             Some (if num_or (numericValue a) 0 > 1000 then ''TTFB is critically high (> 1s)''
                   else if num_or (numericValue a) 0 > 600 then ''TTFB is elevated (> 600ms)''
                   else if num_or (numericValue a) 0 > 400 then ''TTFB is moderate (> 400ms)''
                   else ''TTFB is acceptable'')"
proof -
  let ?v = "num_or (numericValue a) 0"
  let ?f = "\<lparr>fix_title = ''Reduce Server Response Time (TTFB: '' @ ts (Math_round ?v) @ ''ms)'',
         priority = High,
         impact = ''All Core Web Vitals - TTFB affects LCP, FCP, and SI'',
         fix_description = audit_description a,
         diagnosis = Some (diagnoseTTFB ?v),
         fix_fixes = getServerResponseTimeFixes ?v\<rparr>"
  have "performance_switch ts a t = addFix ?f t" for t
    by (simp add: performance_switch_def addServerResponseTimeFixes_def Let_def assms(3))
  moreover from assms(4,5) have "\<not> js_ge (score a) 0.9" by (simp add: js_ge_failing)
  ultimately have "?f \<in> set (gen_fixes (snd (generate ts this)))"
    using assms(1,2) by (intro performance_emits)
  moreover have "diagnosis ?f = Some (if ?v > 1000 then ''TTFB is critically high (> 1s)''
                   else if ?v > 600 then ''TTFB is elevated (> 600ms)''
                   else if ?v > 400 then ''TTFB is moderate (> 400ms)''
                   else ''TTFB is acceptable'')"
    by (simp add: diagnoseTTFB_def)
  moreover have "fix_title ?f = ''Reduce Server Response Time (TTFB: '' @ ts (Math_round ?v) @ ''ms)''"
    by simp
  ultimately show ?thesis by blast
qed

lemma report_ttfb_facts:
  "''server-response-time'' \<in> set (refs_of (lhr (generator_new p c (report_ttfb v))) ''performance'')"
  "lookup (audits (lhr (generator_new p c (report_ttfb v)))) ''server-response-time'' =
     Some ((mk_audit ''server-response-time'' (Num 0.4))\<lparr>numericValue := Num v\<rparr>)"
  "audit_id ((mk_audit ''server-response-time'' (Num 0.4))\<lparr>numericValue := Num v\<rparr>) =
     Some ''server-response-time''"
  "score ((mk_audit ''server-response-time'' (Num 0.4))\<lparr>numericValue := Num v\<rparr>) = Num 0.4"
  "numericValue ((mk_audit ''server-response-time'' (Num 0.4))\<lparr>numericValue := Num v\<rparr>) = Num v"
  by (simp_all add: report_ttfb_def refs_of_def eval_report)

theorem server_response_time_diagnosis_witness:
  "(\<exists>f \<in> set (gen_fixes (snd (generate int_str (generator_new ''r'' None (report_ttfb 1200))))).
      fix_title f = ''Reduce Server Response Time (TTFB: 1200ms)'' \<and>
      diagnosis f = Some ''TTFB is critically high (> 1s)'') \<and>
   (\<exists>f \<in> set (gen_fixes (snd (generate int_str (generator_new ''r'' None (report_ttfb 350))))).
      fix_title f = ''Reduce Server Response Time (TTFB: 350ms)'' \<and>
      diagnosis f = Some ''TTFB is acceptable'')"
proof -
  have lt: "(0.4::rat) < 0.9" by simp
  have r: "Math_round 1200 = 1200" "Math_round 350 = 350" by code_simp+
  from server_response_time_diagnosis
    [where ts = int_str and this = "generator_new ''r'' None (report_ttfb 1200)",
      OF report_ttfb_facts(1) report_ttfb_facts(2) report_ttfb_facts(3) report_ttfb_facts(4) lt]
  have 1: "\<exists>f \<in> set (gen_fixes (snd (generate int_str (generator_new ''r'' None (report_ttfb 1200))))).
      fix_title f = ''Reduce Server Response Time (TTFB: 1200ms)'' \<and>
      diagnosis f = Some ''TTFB is critically high (> 1s)''"
    by (simp add: report_ttfb_facts(5) r int_str_small)
  from server_response_time_diagnosis
    [where ts = int_str and this = "generator_new ''r'' None (report_ttfb 350)",
      OF report_ttfb_facts(1) report_ttfb_facts(2) report_ttfb_facts(3) report_ttfb_facts(4) lt]
  have 2: "\<exists>f \<in> set (gen_fixes (snd (generate int_str (generator_new ''r'' None (report_ttfb 350))))).
      fix_title f = ''Reduce Server Response Time (TTFB: 350ms)'' \<and>
      diagnosis f = Some ''TTFB is acceptable''"
    by (simp add: report_ttfb_facts(5) r int_str_small)
  from 1 2 show ?thesis by blast
qed

lemmas eval_generate =
  generate_def analyzePerformanceIssues_def analyzeAccessibilityIssues_def analyzeSeoIssues_def
  analyzeBestPracticesIssues_def checkFrameworkSpecificIssues_def refs_of_def
  performance_switch_def accessibility_switch_def seo_switch_def best_practices_switch_def
  formatOutput_def js_sort_def addFix_def Let_def js_ge_def js_lt_def

text \<open>
  The bounds are not inclusive: 1000 is diagnosed as elevated, 600 as moderate and 400 as
  acceptable.
\<close>

theorem server_response_time_boundary:
  "map diagnosis (gen_fixes (snd (generate int_str (generator_new ''r'' None (report_ttfb 1000)))))
     = [Some ''TTFB is elevated (> 600ms)''] \<and>
   map diagnosis (gen_fixes (snd (generate int_str (generator_new ''r'' None (report_ttfb 600)))))
     = [Some ''TTFB is moderate (> 400ms)''] \<and>
   map diagnosis (gen_fixes (snd (generate int_str (generator_new ''r'' None (report_ttfb 400)))))
     = [Some ''TTFB is acceptable'']"
  by (simp add: eval_generate report_ttfb_def eval_report addServerResponseTimeFixes_def
      diagnoseTTFB_def)

text \<open>
  C2. The guard of the passes is \<open>!audit || audit.score >= 0.9\<close>, and \<open>null >= 0.9\<close>
  is false: a referenced audit whose score is null is dispatched and contributes a fix.
\<close>

theorem null_score_dispatched:
  "score (mk_audit ''speed-index'' Null) = Null \<and>
   map fix_title (gen_fixes (snd (generate int_str (generator_new ''r'' None report_null))))
     = [''Improve Speed Index'']"
  by (simp add: eval_generate report_null_def eval_report addSpeedIndexFixes_def)

text \<open>
  C5. \<open>formatOutput\<close> writes the title, then the sections of the high, the medium and the
  low fixes in this order; a priority without fixes has no heading; under each heading the
  fixes stand in the order in which the list held them before the sort. A list holding a
  low, a high and a medium fix in this order is written high first, then medium, then low,
  each under its own heading.
\<close>

theorem formatOutput_groups_by_priority:
  "fst (formatOutput this) =
     ''# Lighthouse Fix Suggestions\<newline>\<newline>'' @
     (if gen_fixes this = [] then ''No issues found! Great job!\<newline>''
      else
        (if filter (\<lambda>f. priority f = High) (gen_fixes this) = [] then []
         else heading High @
              concat (map (render_fix []) (filter (\<lambda>f. priority f = High) (gen_fixes this)))) @
        (if filter (\<lambda>f. priority f = Medium) (gen_fixes this) = [] then []
         else heading Medium @
              concat (map (render_fix []) (filter (\<lambda>f. priority f = Medium) (gen_fixes this)))) @
        (if filter (\<lambda>f. priority f = Low) (gen_fixes this) = [] then []
         else heading Low @
              concat (map (render_fix []) (filter (\<lambda>f. priority f = Low) (gen_fixes this))))) \<and>
   heading High = ''## '' @ emoji High @ '' High Priority\<newline>\<newline>'' \<and>
   heading Medium = ''## '' @ emoji Medium @ '' Medium Priority\<newline>\<newline>'' \<and>
   heading Low = ''## '' @ emoji Low @ '' Low Priority\<newline>\<newline>'' \<and>
   (\<forall>fl fh fm. priority fl = Low \<and> priority fh = High \<and> priority fm = Medium \<longrightarrow>
      fst (formatOutput (this\<lparr>gen_fixes := [fl, fh, fm]\<rparr>)) =
        ''# Lighthouse Fix Suggestions\<newline>\<newline>'' @
        heading High @ render_fix [] fh @
        heading Medium @ render_fix [] fm @
        heading Low @ render_fix [] fl)"
proof -
  have "fst (formatOutput (this\<lparr>gen_fixes := [fl, fh, fm]\<rparr>)) =
        ''# Lighthouse Fix Suggestions\<newline>\<newline>'' @
        heading High @ render_fix [] fh @
        heading Medium @ render_fix [] fm @
        heading Low @ render_fix [] fl"
    if "priority fl = Low \<and> priority fh = High \<and> priority fm = Medium" for fl fh fm
    using that by (simp add: formatOutput_text)
  with formatOutput_text [of this] headings show ?thesis by blast
qed

theorem formatOutput_groups_by_priority_witness:
  "fst (formatOutput
          ((generator_new ''r'' None report_passing)
             \<lparr>gen_fixes := [mk_fix ''L'' Low, mk_fix ''H'' High, mk_fix ''M'' Medium]\<rparr>)) =
     ''# Lighthouse Fix Suggestions\<newline>\<newline>'' @
     ''## '' @ emoji High @ '' High Priority\<newline>\<newline>'' @
     ''### H\<newline>\<newline>**Impact**: i\<newline>\<newline>d\<newline>\<newline>---\<newline>\<newline>'' @
     ''## '' @ emoji Medium @ '' Medium Priority\<newline>\<newline>'' @
     ''### M\<newline>\<newline>**Impact**: i\<newline>\<newline>d\<newline>\<newline>---\<newline>\<newline>'' @
     ''## '' @ emoji Low @ '' Low Priority\<newline>\<newline>'' @
     ''### L\<newline>\<newline>**Impact**: i\<newline>\<newline>d\<newline>\<newline>---\<newline>\<newline>''"
proof -
  have p: "priority (mk_fix ''L'' Low) = Low \<and> priority (mk_fix ''H'' High) = High \<and>
           priority (mk_fix ''M'' Medium) = Medium"
    by (simp add: mk_fix_def)
  have r: "render_fix [] (mk_fix t q) =
       ''### '' @ t @ ''\<newline>\<newline>**Impact**: i\<newline>\<newline>d\<newline>\<newline>---\<newline>\<newline>''" for t q
    by (simp add: render_fix_def mk_fix_def)
  from formatOutput_groups_by_priority [of "generator_new ''r'' None report_passing"] p
  have "fst (formatOutput
          ((generator_new ''r'' None report_passing)
             \<lparr>gen_fixes := [mk_fix ''L'' Low, mk_fix ''H'' High, mk_fix ''M'' Medium]\<rparr>)) =
        ''# Lighthouse Fix Suggestions\<newline>\<newline>'' @
        heading High @ render_fix [] (mk_fix ''H'' High) @
        heading Medium @ render_fix [] (mk_fix ''M'' Medium) @
        heading Low @ render_fix [] (mk_fix ''L'' Low)"
    by blast
  then show ?thesis by (simp add: r headings)
qed

lemma checkFramework_quiet:
  assumes "\<forall>u. lookup (audits (lhr this)) ''unused-javascript'' = Some u \<longrightarrow> js_ge (score u) 0.9"
  shows "checkFrameworkSpecificIssues ts this = this"
proof (cases "lookup (audits (lhr this)) ''unused-javascript''")
  case None
  then show ?thesis by (simp add: checkFrameworkSpecificIssues_def)
next
  case (Some u)
  with assms have "js_ge (score u) 0.9" by simp
  then have "\<not> js_lt (score u) 0.9"
    by (simp add: js_ge_def js_lt_def split: option.splits)
  with Some show ?thesis by (simp add: checkFrameworkSpecificIssues_def)
qed

text \<open>
  C7, amended. When every audit that a reference of the four processed categories resolves
  to has a score of at least 0.9, and the \<open>unused-javascript\<close> entry of the audits map
  (read by the framework check whether or not a category references it) is absent or has a
  score of at least 0.9, a fresh generator ends with an empty fix list and writes the title
  followed by the line \<open>No issues found! Great job!\<close> and nothing else.
\<close>

theorem generate_no_issues:
  assumes "\<forall>c \<in> {''performance'', ''accessibility'', ''seo'', ''best-practices''}.
             \<forall>r \<in> set (refs_of rep c). \<forall>a. lookup (audits rep) r = Some a \<longrightarrow> js_ge (score a) 0.9"
    and "\<forall>u. lookup (audits rep) ''unused-javascript'' = Some u \<longrightarrow> js_ge (score u) 0.9"
  shows "gen_fixes (snd (generate ts (generator_new path cat rep))) = [] \<and>
         fst (generate ts (generator_new path cat rep)) =
           ''# Lighthouse Fix Suggestions\<newline>\<newline>No issues found! Great job!\<newline>''"
proof -
  let ?g = "generator_new path cat rep"
  have l: "lhr ?g = rep" and e: "gen_fixes ?g = []" by (simp_all add: generator_new_def)
  have skip: "for_each_ref switch (refs_of rep c) ?g = ?g"
    if "c \<in> {''performance'', ''accessibility'', ''seo'', ''best-practices''}" for switch c
    using assms(1) that by (intro for_each_ref_skips) (simp only: l, blast)
  have 1: "analyzePerformanceIssues ts ?g = ?g"
    using assms(2) by (simp add: analyzePerformanceIssues_def l skip checkFramework_quiet)
  have 2: "analyzeAccessibilityIssues ts ?g = ?g"
    by (simp add: analyzeAccessibilityIssues_def l skip)
  have 3: "analyzeSeoIssues ?g = ?g"
    by (simp add: analyzeSeoIssues_def l skip)
  have 4: "analyzeBestPracticesIssues ts ?g = ?g"
    by (simp add: analyzeBestPracticesIssues_def l skip)
  have "generate ts ?g = formatOutput ?g" by (simp add: generate_def 1 2 3 4)
  then show ?thesis by (simp add: formatOutput_def e)
qed

theorem generate_no_issues_witness:
  "gen_fixes (snd (generate int_str (generator_new ''r'' None report_passing))) = [] \<and>
   fst (generate int_str (generator_new ''r'' None report_passing)) =
     ''# Lighthouse Fix Suggestions\<newline>\<newline>No issues found! Great job!\<newline>''"
proof -
  have 1: "\<forall>c \<in> {''performance'', ''accessibility'', ''seo'', ''best-practices''}.
             \<forall>r \<in> set (refs_of report_passing c).
               \<forall>a. lookup (audits report_passing) r = Some a \<longrightarrow> js_ge (score a) 0.9"
    by (simp add: report_passing_def refs_of_def eval_report js_ge_def)
  have 2: "\<forall>u. lookup (audits report_passing) ''unused-javascript'' = Some u
             \<longrightarrow> js_ge (score u) 0.9"
    by (simp add: report_passing_def eval_report)
  from generate_no_issues [OF 1 2] show ?thesis by blast
qed

lemma formatOutput_issues:
  assumes "gen_fixes this \<noteq> []"
  shows "\<exists>rest. fst (formatOutput this) = ''# Lighthouse Fix Suggestions\<newline>\<newline>## '' @ rest"
proof -
  from assms obtain f fs where fs: "gen_fixes this = f # fs" by (cases "gen_fixes this") auto
  let ?b = "\<lambda>p. filter (\<lambda>f. priority f = p) (gen_fixes this)"
  have h: "\<exists>rest. heading p @ x = ''## '' @ rest" for p x
    by (simp add: heading_def)
  consider "?b High \<noteq> []" | "?b High = []" "?b Medium \<noteq> []"
    | "?b High = []" "?b Medium = []" "?b Low \<noteq> []"
    using fs by (cases "priority f") auto
  then show ?thesis
  proof cases
    case 1
    with assms h show ?thesis by (simp add: formatOutput_text del: filter.simps)
  next
    case 2
    with assms h show ?thesis by (simp add: formatOutput_text del: filter.simps)
  next
    case 3
    with assms h show ?thesis by (simp add: formatOutput_text del: filter.simps)
  qed
qed

text \<open>
  The framework check reads \<open>audits['unused-javascript']\<close> directly: with no audit
  referenced by any category, a failing \<open>unused-javascript\<close> that lists a framework chunk
  still yields a fix, and the output is not the no-issues line.
\<close>

theorem unreferenced_audit_yields_fix:
  "refs_of report_unreferenced ''performance'' = [] \<and>
   refs_of report_unreferenced ''accessibility'' = [] \<and>
   refs_of report_unreferenced ''seo'' = [] \<and>
   refs_of report_unreferenced ''best-practices'' = [] \<and>
   map fix_title
     (gen_fixes (snd (generate int_str (generator_new ''r'' None report_unreferenced)))) =
     [''Optimize Next.js Bundle Size (~2KB wasted)''] \<and>
   fst (generate int_str (generator_new ''r'' None report_unreferenced)) \<noteq>
     ''# Lighthouse Fix Suggestions\<newline>\<newline>No issues found! Great job!\<newline>''"
proof -
  let ?g = "generator_new ''r'' None report_unreferenced"
  let ?t4 = "analyzeBestPracticesIssues int_str (analyzeSeoIssues
     (analyzeAccessibilityIssues int_str (analyzePerformanceIssues int_str ?g)))"
  have refs: "refs_of report_unreferenced c = []" for c
    by (simp add: refs_of_def report_unreferenced_def eval_report)
  have r: "Math_round 2 = 2" by code_simp
  have two: "2048 \<in> (\<nat> :: rat set)" "(2048::rat) \<le> 2 ^ 53" by simp_all
  have d: "to_double 2048 = Finite 2048" "div_1024 (Finite 2048) = Finite 2"
    using Nats_double [OF two] by (simp_all add: div_1024_def)
  have t: "map fix_title (gen_fixes (snd (generate int_str ?g))) =
     [''Optimize Next.js Bundle Size (~2KB wasted)'']"
    by (simp add: eval_generate report_unreferenced_def eval_report no_item_def is_nextjs_chunk_def
        addNextJsOptimizationFixes_def Math_round_double_def d r int_str_small)
  have "map fix_title (gen_fixes ?t4) = [''Optimize Next.js Bundle Size (~2KB wasted)'']"
    by (simp add: eval_generate report_unreferenced_def eval_report no_item_def is_nextjs_chunk_def
        addNextJsOptimizationFixes_def Math_round_double_def d r int_str_small)
  then have "gen_fixes ?t4 \<noteq> []" by auto
  then obtain rest where
    "fst (formatOutput ?t4) = ''# Lighthouse Fix Suggestions\<newline>\<newline>## '' @ rest"
    using formatOutput_issues by blast
  then have "fst (generate int_str ?g) \<noteq>
     ''# Lighthouse Fix Suggestions\<newline>\<newline>No issues found! Great job!\<newline>''"
    by (simp add: generate_def)
  with refs t show ?thesis by blast
qed

lemma top_wasters_lines_append:
  "top_wasters_lines ts i xs out = out @ top_wasters_lines ts i xs []"
proof (induction xs arbitrary: i out)
  case Nil
  show ?case by simp
next
  case (Cons x xs)
  obtain line where step: "\<And>acc. top_wasters_lines ts i (x # xs) acc =
      top_wasters_lines ts (i + 1) xs (acc @ line)"
    by (simp add: Let_def)
  have "top_wasters_lines ts (i + 1) xs (out @ line) =
        (out @ line) @ top_wasters_lines ts (i + 1) xs []"
    by (rule Cons.IH)
  moreover have "top_wasters_lines ts (i + 1) xs ([] @ line) =
        ([] @ line) @ top_wasters_lines ts (i + 1) xs []"
    by (rule Cons.IH)
  ultimately show ?case unfolding step by simp
qed

lemma getUnusedJsAnalysis_header:
  "\<exists>rest. getUnusedJsAnalysis ts its tb ms =
     ''## Unused JavaScript Details\<newline>\<newline>**Total Impact**: '' @
     double_str ts (Math_round_double (div_1024 tb)) @
     ''KB wasted, '' @ ts ms @ ''ms savings\<newline>\<newline>### Top Wasting Files:\<newline>\<newline>'' @ rest"
  unfolding getUnusedJsAnalysis_def Let_def
  by (subst top_wasters_lines_append) simp

lemma unused_javascript_rule:
  "\<exists>f. (\<forall>t. addUnusedJavaScriptFixes ts a t = addFix f t) \<and>
     fix_title f =
       ''Reduce Unused JavaScript (~'' @
       double_str ts (Math_round_double (div_1024
         (foldl (\<lambda>s i. double_add s (Finite (wasted_of i))) (Finite 0) (items_of a)))) @
       ''KB wasted, '' @ ts (num_or (savingsMs_of a) 0) @ ''ms savings)'' \<and>
     diagnosis f =
       Some (ts (len (filter (\<lambda>i. \<not> is_extension i) (items_of a))) @
             '' first-party files with unused code'') \<and>
     fix_fixes f =
       (if filter (\<lambda>i. \<not> is_extension i) (items_of a) = [] then []
        else [\<lparr>snip_type = ''markdown'', snip_title = ''Unused JavaScript Analysis'',
               code = getUnusedJsAnalysis ts (filter (\<lambda>i. \<not> is_extension i) (items_of a))
                        (foldl (\<lambda>s i. double_add s (Finite (wasted_of i))) (Finite 0) (items_of a))
                        (num_or (savingsMs_of a) 0)\<rparr>,
              \<lparr>snip_type = ''javascript'', snip_title = ''Dynamic Imports for Code Splitting'',
               code = code (hd (tl (fix_fixes f)))\<rparr>]) @
       (if filter is_extension (items_of a) = [] then []
        else [\<lparr>snip_type = ''text'', snip_title = ''Browser Extensions Detected (Can Ignore)'',
               code = ''Browser extensions like '' @
                 join (map extension_name (filter is_extension (items_of a))) '', '' @
                 '' only affect local development. Test in incognito mode for accurate production metrics.''\<rparr>])"
  unfolding addUnusedJavaScriptFixes_def Let_def
  apply (rule exI)
  apply (rule conjI)
   apply (rule allI)
   apply (rule refl)
  apply (simp add: wasted_of_def)
  done

text \<open>
  C8. For a failing \<open>unused-javascript\<close> audit referenced by the performance category the
  emitted fix splits \<open>details.items\<close> by whether the URL contains \<open>chrome-extension://\<close>.
  Its title and the header of its analysis block carry one wasted-bytes figure, the sum of
  \<open>wastedBytes\<close> over all items, extensions included, added as doubles from left to right,
  in KB, rounded; and \<open>details.overallSavingsMs\<close> as it stands (0 when absent). When every
  \<open>wastedBytes\<close> is a natural number and their total is at most \<open>2 ^ 53\<close> the additions are
  exact and the figure is that of the exact sum. The diagnosis counts the first-party items
  only. The fix has the analysis block, made from the first-party items, exactly when there
  is a first-party item, and the can-ignore block, naming the last path segment of each
  extension URL and of no other, exactly when there is an extension item.
\<close>

theorem unused_javascript_fix:
  assumes "''unused-javascript'' \<in> set (refs_of (lhr this) ''performance'')"
    and "lookup (audits (lhr this)) ''unused-javascript'' = Some a"
    and "audit_id a = Some ''unused-javascript''"
    and "score a = Num x" and "x < 0.9"
  shows
    "let its = items_of a;
         firstParty = filter (\<lambda>i. \<not> is_extension i) its;
         extensions = filter is_extension its;
         totalWastedBytes =
           foldl (\<lambda>sum i. double_add sum (Finite (wasted_of i))) (Finite 0) its;
         kb = double_str ts (Math_round_double (div_1024 totalWastedBytes));
         totalWastedMs = num_or (savingsMs_of a) 0
     in \<exists>f \<in> set (gen_fixes (snd (generate ts this))).
          fix_title f =
            ''Reduce Unused JavaScript (~'' @ kb @ ''KB wasted, '' @ ts totalWastedMs @
            ''ms savings)'' \<and>
          ((\<forall>i \<in> set its. wasted_of i \<in> \<nat>) \<and> sum_list (map wasted_of its) \<le> 2 ^ 53 \<longrightarrow>
             kb = ts (Math_round (sum_list (map wasted_of its) / 1024))) \<and>
          diagnosis f = Some (ts (len firstParty) @ '' first-party files with unused code'') \<and>
          (firstParty \<noteq> [] \<longrightarrow>
             (\<exists>s \<in> set (fix_fixes f).
                snip_title s = ''Unused JavaScript Analysis'' \<and>
                code s = getUnusedJsAnalysis ts firstParty totalWastedBytes totalWastedMs \<and>
                (\<exists>rest. code s =
                   ''## Unused JavaScript Details\<newline>\<newline>**Total Impact**: '' @ kb @
                   ''KB wasted, '' @ ts totalWastedMs @
                   ''ms savings\<newline>\<newline>### Top Wasting Files:\<newline>\<newline>'' @ rest))) \<and>
          (firstParty = [] \<longrightarrow>
             (\<forall>s \<in> set (fix_fixes f). snip_title s \<noteq> ''Unused JavaScript Analysis'')) \<and>
          (extensions \<noteq> [] \<longrightarrow>
             (\<exists>s \<in> set (fix_fixes f).
                snip_title s = ''Browser Extensions Detected (Can Ignore)'' \<and>
                code s =
                  ''Browser extensions like '' @ join (map extension_name extensions) '', '' @
                  '' only affect local development. Test in incognito mode for accurate production metrics.'')) \<and>
          (extensions = [] \<longrightarrow>
             (\<forall>s \<in> set (fix_fixes f).
                snip_title s \<noteq> ''Browser Extensions Detected (Can Ignore)''))"
proof -
  let ?its = "items_of a"
  let ?fp = "filter (\<lambda>i. \<not> is_extension i) ?its"
  let ?ex = "filter is_extension ?its"
  let ?tb = "foldl (\<lambda>s i. double_add s (Finite (wasted_of i))) (Finite 0) ?its"
  let ?ms = "num_or (savingsMs_of a) 0"
  let ?kb = "double_str ts (Math_round_double (div_1024 ?tb))"
  obtain f where rule: "\<And>t. addUnusedJavaScriptFixes ts a t = addFix f t"
    and title: "fix_title f =
       ''Reduce Unused JavaScript (~'' @ ?kb @ ''KB wasted, '' @ ts ?ms @ ''ms savings)''"
    and diag: "diagnosis f = Some (ts (len ?fp) @ '' first-party files with unused code'')"
    and snippets: "fix_fixes f =
       (if ?fp = [] then []
        else [\<lparr>snip_type = ''markdown'', snip_title = ''Unused JavaScript Analysis'',
               code = getUnusedJsAnalysis ts ?fp ?tb ?ms\<rparr>,
              \<lparr>snip_type = ''javascript'', snip_title = ''Dynamic Imports for Code Splitting'',
               code = code (hd (tl (fix_fixes f)))\<rparr>]) @
       (if ?ex = [] then []
        else [\<lparr>snip_type = ''text'', snip_title = ''Browser Extensions Detected (Can Ignore)'',
               code = ''Browser extensions like '' @ join (map extension_name ?ex) '', '' @
                 '' only affect local development. Test in incognito mode for accurate production metrics.''\<rparr>])"
    using unused_javascript_rule [of ts a] by blast
  have "performance_switch ts a t = addFix f t" for t
    by (simp add: performance_switch_def assms(3) rule)
  moreover from assms(4,5) have "\<not> js_ge (score a) 0.9" by (simp add: js_ge_failing)
  ultimately have mem: "f \<in> set (gen_fixes (snd (generate ts this)))"
    using assms(1,2) by (intro performance_emits)
  obtain rest where header: "getUnusedJsAnalysis ts ?fp ?tb ?ms =
      ''## Unused JavaScript Details\<newline>\<newline>**Total Impact**: '' @ ?kb @ ''KB wasted, '' @
      ts ?ms @ ''ms savings\<newline>\<newline>### Top Wasting Files:\<newline>\<newline>'' @ rest"
    using getUnusedJsAnalysis_header by blast
  have exact: "?kb = ts (Math_round (sum_list (map wasted_of ?its) / 1024))"
    if "\<forall>i \<in> set ?its. wasted_of i \<in> \<nat>" and "sum_list (map wasted_of ?its) \<le> 2 ^ 53"
  proof -
    from that(1) have nat: "sum_list (map wasted_of ?its) \<in> (\<nat> :: rat set)"
      by (rule sum_list_Nats)
    have "?tb = Finite (0 + sum_list (map wasted_of ?its))"
      using that by (intro double_sum_exact) simp_all
    then show ?thesis by (simp add: rounded_kb_exact [OF nat that(2)])
  qed
  have "fix_title f =
            ''Reduce Unused JavaScript (~'' @ ?kb @ ''KB wasted, '' @ ts ?ms @ ''ms savings)'' \<and>
          ((\<forall>i \<in> set ?its. wasted_of i \<in> \<nat>) \<and> sum_list (map wasted_of ?its) \<le> 2 ^ 53 \<longrightarrow>
             ?kb = ts (Math_round (sum_list (map wasted_of ?its) / 1024))) \<and>
          diagnosis f = Some (ts (len ?fp) @ '' first-party files with unused code'') \<and>
          (?fp \<noteq> [] \<longrightarrow>
             (\<exists>s \<in> set (fix_fixes f).
                snip_title s = ''Unused JavaScript Analysis'' \<and>
                code s = getUnusedJsAnalysis ts ?fp ?tb ?ms \<and>
                (\<exists>rest. code s =
                   ''## Unused JavaScript Details\<newline>\<newline>**Total Impact**: '' @ ?kb @
                   ''KB wasted, '' @ ts ?ms @
                   ''ms savings\<newline>\<newline>### Top Wasting Files:\<newline>\<newline>'' @ rest))) \<and>
          (?fp = [] \<longrightarrow>
             (\<forall>s \<in> set (fix_fixes f). snip_title s \<noteq> ''Unused JavaScript Analysis'')) \<and>
          (?ex \<noteq> [] \<longrightarrow>
             (\<exists>s \<in> set (fix_fixes f).
                snip_title s = ''Browser Extensions Detected (Can Ignore)'' \<and>
                code s =
                  ''Browser extensions like '' @ join (map extension_name ?ex) '', '' @
                  '' only affect local development. Test in incognito mode for accurate production metrics.'')) \<and>
          (?ex = [] \<longrightarrow>
             (\<forall>s \<in> set (fix_fixes f).
                snip_title s \<noteq> ''Browser Extensions Detected (Can Ignore)''))"
  proof (intro conjI impI)
    show "fix_title f =
            ''Reduce Unused JavaScript (~'' @ ?kb @ ''KB wasted, '' @ ts ?ms @ ''ms savings)''"
      by (rule title)
    show "?kb = ts (Math_round (sum_list (map wasted_of ?its) / 1024))"
      if "(\<forall>i \<in> set ?its. wasted_of i \<in> \<nat>) \<and> sum_list (map wasted_of ?its) \<le> 2 ^ 53"
      using that exact by blast
    show "diagnosis f = Some (ts (len ?fp) @ '' first-party files with unused code'')"
      by (rule diag)
    show "\<exists>s \<in> set (fix_fixes f).
                snip_title s = ''Unused JavaScript Analysis'' \<and>
                code s = getUnusedJsAnalysis ts ?fp ?tb ?ms \<and>
                (\<exists>rest. code s =
                   ''## Unused JavaScript Details\<newline>\<newline>**Total Impact**: '' @ ?kb @
                   ''KB wasted, '' @ ts ?ms @
                   ''ms savings\<newline>\<newline>### Top Wasting Files:\<newline>\<newline>'' @ rest)"
      if "?fp \<noteq> []"
    proof -
      let ?s = "\<lparr>snip_type = ''markdown'', snip_title = ''Unused JavaScript Analysis'',
               code = getUnusedJsAnalysis ts ?fp ?tb ?ms\<rparr>"
      from that have "?s \<in> set (fix_fixes f)" by (subst snippets) simp
      moreover have "snip_title ?s = ''Unused JavaScript Analysis''" by simp
      moreover have "code ?s = getUnusedJsAnalysis ts ?fp ?tb ?ms" by simp
      moreover have "\<exists>rest. code ?s =
                   ''## Unused JavaScript Details\<newline>\<newline>**Total Impact**: '' @ ?kb @
                   ''KB wasted, '' @ ts ?ms @
                   ''ms savings\<newline>\<newline>### Top Wasting Files:\<newline>\<newline>'' @ rest"
        using header by auto
      ultimately show ?thesis by blast
    qed
    show "\<forall>s \<in> set (fix_fixes f). snip_title s \<noteq> ''Unused JavaScript Analysis''"
      if "?fp = []"
      using that by (subst snippets) simp
    show "\<exists>s \<in> set (fix_fixes f).
                snip_title s = ''Browser Extensions Detected (Can Ignore)'' \<and>
                code s =
                  ''Browser extensions like '' @ join (map extension_name ?ex) '', '' @
                  '' only affect local development. Test in incognito mode for accurate production metrics.''"
      if "?ex \<noteq> []"
      using that by (subst snippets) simp
    show "\<forall>s \<in> set (fix_fixes f).
                snip_title s \<noteq> ''Browser Extensions Detected (Can Ignore)''"
      if "?ex = []"
      using that by (subst snippets) simp
  qed
  with mem show ?thesis unfolding Let_def by blast
qed

lemma report_unused_facts:
  "''unused-javascript'' \<in> set (refs_of (lhr (generator_new p c report_unused)) ''performance'')"
  "lookup (audits (lhr (generator_new p c report_unused))) ''unused-javascript'' =
     Some (mk_opportunity ''unused-javascript'' (Num 0.5) (Num 150) items_unused)"
  "audit_id (mk_opportunity ''unused-javascript'' (Num 0.5) (Num 150) items_unused) =
     Some ''unused-javascript''"
  "score (mk_opportunity ''unused-javascript'' (Num 0.5) (Num 150) items_unused) = Num 0.5"
  "items_of (mk_opportunity ''unused-javascript'' (Num 0.5) (Num 150) items_unused) = items_unused"
  "num_or (savingsMs_of (mk_opportunity ''unused-javascript'' (Num 0.5) (Num 150) items_unused)) 0
     = 150"
  by (simp_all add: report_unused_def refs_of_def eval_report items_of_def savingsMs_of_def)

lemma items_unused_facts:
  "filter (\<lambda>i. \<not> is_extension i) items_unused =
     [no_item\<lparr>url := Some ''https://x.io/app.js'', wastedBytes := Num 3072,
              totalBytes := Num 4096\<rparr>]"
  "filter is_extension items_unused =
     [no_item\<lparr>url := Some ''chrome-extension://abc/content.js'', wastedBytes := Num 1024,
              totalBytes := Num 2048\<rparr>]"
  "sum_list (map wasted_of items_unused) = 4096"
  "extension_name (no_item\<lparr>url := Some ''chrome-extension://abc/content.js'',
     wastedBytes := Num 1024, totalBytes := Num 2048\<rparr>) = ''content.js''"
  "\<forall>i \<in> set items_unused. wasted_of i \<in> \<nat>"
  by (simp_all add: items_unused_def no_item_def is_extension_def wasted_of_def
      extension_name_def js_split_def js_pop_def)

lemma rounded: "Math_round 4 = 4" "Math_round 2 = 2" "Math_round 1200 = 1200"
  "Math_round 350 = 350"
  by code_simp+

theorem unused_javascript_fix_witness:
  "\<exists>f \<in> set (gen_fixes (snd (generate int_str (generator_new ''r'' None report_unused)))).
     fix_title f = ''Reduce Unused JavaScript (~4KB wasted, 150ms savings)'' \<and>
     diagnosis f = Some ''1 first-party files with unused code'' \<and>
     (\<exists>s \<in> set (fix_fixes f).
        snip_title s = ''Unused JavaScript Analysis'' \<and>
        (\<exists>rest. code s =
           ''## Unused JavaScript Details\<newline>\<newline>**Total Impact**: 4KB wasted, 150ms savings\<newline>\<newline>### Top Wasting Files:\<newline>\<newline>'' @ rest)) \<and>
     (\<exists>s \<in> set (fix_fixes f).
        snip_title s = ''Browser Extensions Detected (Can Ignore)'' \<and>
        code s = ''Browser extensions like content.js only affect local development. Test in incognito mode for accurate production metrics.'')"
proof -
  let ?tb = "foldl (\<lambda>sum i. double_add sum (Finite (wasted_of i))) (Finite 0) items_unused"
  let ?kb = "double_str int_str (Math_round_double (div_1024 ?tb))"
  let ?fp = "[no_item\<lparr>url := Some ''https://x.io/app.js'', wastedBytes := Num 3072,
              totalBytes := Num 4096\<rparr>]"
  let ?ex = "[no_item\<lparr>url := Some ''chrome-extension://abc/content.js'', wastedBytes := Num 1024,
              totalBytes := Num 2048\<rparr>]"
  have lt: "(0.5::rat) < 0.9" by simp
  have hyp: "(\<forall>i \<in> set items_unused. wasted_of i \<in> \<nat>) \<and>
             sum_list (map wasted_of items_unused) \<le> 2 ^ 53"
    using items_unused_facts(5) by (simp add: items_unused_facts(3))
  note th = unused_javascript_fix
    [where ts = int_str and this = "generator_new ''r'' None report_unused",
      OF report_unused_facts(1) report_unused_facts(2) report_unused_facts(3)
        report_unused_facts(4) lt,
      unfolded Let_def report_unused_facts(5) report_unused_facts(6) items_unused_facts(1,2)]
  from th obtain f
    where mem: "f \<in> set (gen_fixes (snd (generate int_str (generator_new ''r'' None report_unused))))"
    and title: "fix_title f =
       ''Reduce Unused JavaScript (~'' @ ?kb @ ''KB wasted, '' @ int_str 150 @ ''ms savings)''"
    and fig: "(\<forall>i \<in> set items_unused. wasted_of i \<in> \<nat>) \<and>
               sum_list (map wasted_of items_unused) \<le> 2 ^ 53 \<longrightarrow>
             ?kb = int_str (Math_round (sum_list (map wasted_of items_unused) / 1024))"
    and diag: "diagnosis f = Some (int_str (len ?fp) @ '' first-party files with unused code'')"
    and blk: "?fp \<noteq> [] \<longrightarrow>
             (\<exists>s \<in> set (fix_fixes f).
                snip_title s = ''Unused JavaScript Analysis'' \<and>
                code s = getUnusedJsAnalysis int_str ?fp ?tb 150 \<and>
                (\<exists>rest. code s =
                   ''## Unused JavaScript Details\<newline>\<newline>**Total Impact**: '' @ ?kb @
                   ''KB wasted, '' @ int_str 150 @
                   ''ms savings\<newline>\<newline>### Top Wasting Files:\<newline>\<newline>'' @ rest))"
    and ign: "?ex \<noteq> [] \<longrightarrow>
             (\<exists>s \<in> set (fix_fixes f).
                snip_title s = ''Browser Extensions Detected (Can Ignore)'' \<and>
                code s =
                  ''Browser extensions like '' @ join (map extension_name ?ex) '', '' @
                  '' only affect local development. Test in incognito mode for accurate production metrics.'')"
    by blast
  from fig hyp have kb: "?kb = ''4''"
    by (simp add: items_unused_facts(3) rounded int_str_small)
  from title have "fix_title f = ''Reduce Unused JavaScript (~4KB wasted, 150ms savings)''"
    by (simp add: kb int_str_small)
  moreover from diag have "diagnosis f = Some ''1 first-party files with unused code''"
    by (simp add: len_def int_str_small)
  moreover from blk obtain s where "s \<in> set (fix_fixes f)"
    and "snip_title s = ''Unused JavaScript Analysis''"
    and "\<exists>rest. code s =
           ''## Unused JavaScript Details\<newline>\<newline>**Total Impact**: '' @ ?kb @
           ''KB wasted, '' @ int_str 150 @
           ''ms savings\<newline>\<newline>### Top Wasting Files:\<newline>\<newline>'' @ rest"
    by blast
  then have "\<exists>s \<in> set (fix_fixes f).
        snip_title s = ''Unused JavaScript Analysis'' \<and>
        (\<exists>rest. code s =
           ''## Unused JavaScript Details\<newline>\<newline>**Total Impact**: 4KB wasted, 150ms savings\<newline>\<newline>### Top Wasting Files:\<newline>\<newline>'' @ rest)"
    unfolding kb by (auto simp: int_str_small)
  moreover from ign have "\<exists>s \<in> set (fix_fixes f).
        snip_title s = ''Browser Extensions Detected (Can Ignore)'' \<and>
        code s = ''Browser extensions like content.js only affect local development. Test in incognito mode for accurate production metrics.''"
    by (simp add: items_unused_facts(4))
  ultimately show ?thesis using mem by blast
qed

lemma perform_id: "perform this q = this"
  by (cases q)
    (simp_all add: getSummary_def getCategoryScores_def getFailedAudits_def getOpportunities_def
      getDiagnostics_def getCoreWebVitals_def split: sum.splits)

lemma foldl_perform_id: "foldl perform this qs = this"
  by (induction qs) (simp_all add: perform_id)

text \<open>
  C9. Any sequence of the analyzer's queries leaves the analyzer, and so its report, as it
  was after loading; \<open>generate\<close> changes the generator's fix list and nothing else, so
  its report is the loaded one too.
\<close>

theorem report_never_mutated:
  "foldl perform this qs = this \<and> lhr (foldl perform this qs) = lhr this \<and>
   (\<exists>fs. snd (generate ts g) = g\<lparr>gen_fixes := fs\<rparr>) \<and>
   lhr (snd (generate ts g)) = lhr g"
proof -
  obtain fs where "snd (generate ts g) = g\<lparr>gen_fixes := fs\<rparr>"
    using generate_state by blast
  then have "(\<exists>fs. snd (generate ts g) = g\<lparr>gen_fixes := fs\<rparr>) \<and> lhr (snd (generate ts g)) = lhr g"
    by auto
  then show ?thesis by (simp add: foldl_perform_id)
qed

theorem report_never_mutated_witness:
  "lhr (foldl perform (analyzer_new ''r'' None Undefined False report_mixed)
          [GetSummary, GetFailedAudits None, GetOpportunities, GetDiagnostics, GetCoreWebVitals,
           GetFailedAudits (Some ''seo'')]) = report_mixed \<and>
   lhr (snd (generate int_str (generator_new ''r'' None report_mixed))) = report_mixed \<and>
   map fix_title (gen_fixes (snd (generate int_str (generator_new ''r'' None report_mixed)))) =
     [''Reduce Server Response Time (TTFB: 1200ms)'', ''Improve Speed Index'']"
proof -
  have "map fix_title (gen_fixes (snd (generate int_str (generator_new ''r'' None report_mixed)))) =
     [''Reduce Server Response Time (TTFB: 1200ms)'', ''Improve Speed Index'']"
    by (simp add: eval_generate report_mixed_def eval_report addServerResponseTimeFixes_def
        addSpeedIndexFixes_def priorityOrder_def rounded int_str_small)
  with report_never_mutated
    [of "analyzer_new ''r'' None Undefined False report_mixed"
      "[GetSummary, GetFailedAudits None, GetOpportunities, GetDiagnostics, GetCoreWebVitals,
        GetFailedAudits (Some ''seo'')]"
      int_str "generator_new ''r'' None report_mixed"]
  show ?thesis by (simp add: analyzer_new_def generator_new_def)
qed

end
